theory Spec2Isabelle
  imports Complex_Main "HOL-Library.Word"
begin

section \<open>JavaScript values used by the marketplace client\<close>

subsection \<open>Buffers\<close>

text \<open>
  A \<open>Buffer\<close> is a list of bytes. The readers of Node's \<open>Buffer\<close> (and of the \<open>buffer\<close>
  package the shop page imports) throw a \<open>RangeError\<close> when the bytes they need are not
  all inside the buffer; \<open>slice\<close> never throws and clamps both ends to the buffer.
\<close>

type_synonym byte = "8 word"
type_synonym Buffer = "byte list"

datatype js_error =
    RangeError
  | InvalidPublicKeyInput
  | ShopNotInitialized
  | ItemNotFound nat
  | InsufficientFunds nat nat
  | WalletCannotSign
  | Rejected string

text \<open>
  \<open>RangeError\<close>: a Buffer access outside the buffer, or a BigInt outside the 64-bit range.
  \<open>InvalidPublicKeyInput\<close>: \<open>Error('Invalid public key input')\<close> of \<open>new PublicKey\<close>.
  \<open>ShopNotInitialized\<close>, \<open>ItemNotFound id\<close>, \<open>InsufficientFunds need have\<close> and
  \<open>WalletCannotSign\<close> are the four \<open>throw new Error(...)\<close> of \<open>handlePurchase\<close>
  (the amounts of the message are kept in lamports).
  \<open>Rejected msg\<close>: a rejection that comes from the RPC node, the wallet or a library.
\<close>

fun le_nat :: "byte list \<Rightarrow> nat" where
  "le_nat [] = 0"
| "le_nat (b # bs) = unat b + 256 * le_nat bs"

fun le_bytes :: "nat \<Rightarrow> nat \<Rightarrow> byte list" where
  "le_bytes 0 v = []"
| "le_bytes (Suc k) v = of_nat (v mod 256) # le_bytes k (v div 256)"

definition be_nat :: "byte list \<Rightarrow> nat" where
  "be_nat bs = le_nat (rev bs)"

definition be_bytes :: "nat \<Rightarrow> nat \<Rightarrow> byte list" where
  "be_bytes k v = rev (le_bytes k v)"

definition slice :: "Buffer \<Rightarrow> nat \<Rightarrow> nat \<Rightarrow> Buffer" where
  "slice buf start end = take (end - start) (drop start buf)"

definition readUInt32LE :: "Buffer \<Rightarrow> nat \<Rightarrow> js_error + nat" where
  "readUInt32LE buf offset =
     (if offset + 4 \<le> length buf then Inr (le_nat (take 4 (drop offset buf)))
      else Inl RangeError)"

definition readBigUInt64LE :: "Buffer \<Rightarrow> nat \<Rightarrow> js_error + nat" where
  "readBigUInt64LE buf offset =
     (if offset + 8 \<le> length buf then Inr (le_nat (take 8 (drop offset buf)))
      else Inl RangeError)"

definition readBigInt64LE :: "Buffer \<Rightarrow> nat \<Rightarrow> js_error + int" where
  "readBigInt64LE buf offset =
     (if offset + 8 \<le> length buf then
        (let v = le_nat (take 8 (drop offset buf))
         in Inr (if v < 2 ^ 63 then int v else int v - 2 ^ 64))
      else Inl RangeError)"

definition Buffer_alloc :: "nat \<Rightarrow> Buffer" where
  "Buffer_alloc n = replicate n 0"

definition writeBigUInt64LE :: "Buffer \<Rightarrow> nat \<Rightarrow> js_error + Buffer" where
  "writeBigUInt64LE buf v =
     (if v < 2 ^ 64 \<and> 8 \<le> length buf then Inr (le_bytes 8 v @ drop 8 buf)
      else Inl RangeError)"

definition writeUInt32LE :: "Buffer \<Rightarrow> nat \<Rightarrow> js_error + Buffer" where
  "writeUInt32LE buf v =
     (if v < 2 ^ 32 \<and> 4 \<le> length buf then Inr (le_bytes 4 v @ drop 4 buf)
      else Inl RangeError)"

text \<open>
  JavaScript strings are represented by their UTF-8 bytes, one \<open>char\<close> per byte, so
  \<open>Buffer.from(s)\<close> is the list of these bytes. The opposite direction,
  \<open>buf.toString('utf8')\<close>, replaces ill-formed sequences in a way that depends on the
  Buffer implementation; it is a parameter \<open>toString\<close> of the decoders below.
\<close>

definition Buffer_from :: "string \<Rightarrow> Buffer" where
  "Buffer_from s = map (\<lambda>c. of_nat (of_char c)) s"

subsection \<open>Numbers\<close>

text \<open>
  A JavaScript number is a binary64 float. \<open>Number(b)\<close> of a BigInt \<open>b\<close> is the nearest
  float, ties to even: exact below \<open>2 ^ 53\<close>, rounded to 53 significant bits above.
\<close>

fun bit_length :: "nat \<Rightarrow> nat" where
  "bit_length n = (if n = 0 then 0 else Suc (bit_length (n div 2)))"

declare bit_length.simps [simp del]

definition round_half_even :: "nat \<Rightarrow> nat \<Rightarrow> nat" where
  "round_half_even n d =
     (let q = n div d; r = n mod d
      in if 2 * r < d \<or> (2 * r = d \<and> even q) then q else q + 1)"

definition Number_of_bigint :: "nat \<Rightarrow> nat" where
  "Number_of_bigint n =
     (if n < 2 ^ 53 then n
      else (let e = bit_length n - 53 in round_half_even n (2 ^ e) * 2 ^ e))"

definition Number_of_signed_bigint :: "int \<Rightarrow> int" where
  "Number_of_signed_bigint i =
     (if i < 0 then - int (Number_of_bigint (nat (- i))) else int (Number_of_bigint (nat i)))"

text \<open>
  \<open>a / b\<close> for two positive integer-valued numbers: the float nearest to the quotient.
  With \<open>2 ^ l \<le> a / b < 2 ^ (l + 1)\<close> the quotient is rounded to a multiple of
  \<open>2 ^ (l - 52)\<close>. (The quotients of this program are far from the subnormal and the
  overflow range, which are not modelled.)
\<close>

definition scale2 :: "nat \<Rightarrow> int \<Rightarrow> nat" where
  "scale2 n e = n * 2 ^ nat e"

definition floor_log2_ratio :: "nat \<Rightarrow> nat \<Rightarrow> int" where
  "floor_log2_ratio a b =
     (let k = int (bit_length a) - int (bit_length b)
      in if scale2 b k \<le> scale2 a (- k) then k else k - 1)"

definition js_div :: "nat \<Rightarrow> nat \<Rightarrow> rat" where
  "js_div a b =
     (if a = 0 then 0
      else (let e = floor_log2_ratio a b - 52;
                m = round_half_even (scale2 a (- e)) (scale2 b e)
            in of_nat m * (if 0 \<le> e then 2 ^ nat e else 1 / 2 ^ nat (- e))))"

subsection \<open>Public keys\<close>

text \<open>
  A \<open>PublicKey\<close> of \<open>@solana/web3.js\<close> holds a big number \<open>_bn\<close>. The constructor reads
  a byte array as a big-endian number and throws when it needs more than 32 bytes;
  \<open>equals\<close> compares the numbers; \<open>toBuffer\<close> writes the number on 32 bytes.
\<close>

datatype PublicKey = PublicKey (bn: nat)

definition new_PublicKey :: "Buffer \<Rightarrow> js_error + PublicKey" where
  "new_PublicKey bytes =
     (if be_nat bytes < 2 ^ 256 then Inr (PublicKey (be_nat bytes))
      else Inl InvalidPublicKeyInput)"

definition equals :: "PublicKey \<Rightarrow> PublicKey \<Rightarrow> bool" where
  "equals a b = (bn a = bn b)"

definition toBuffer :: "PublicKey \<Rightarrow> Buffer" where
  "toBuffer k = be_bytes 32 (bn k)"


section \<open>Transactions and the connection\<close>

record AccountMeta =
  pubkey :: PublicKey
  isSigner :: bool
  isWritable :: bool

record TransactionInstruction =
  keys :: "AccountMeta list"
  programId :: PublicKey
  data :: Buffer

text \<open>
  \<open>ComputeBudgetProgram.setComputeUnitLimit({units})\<close> is built by the library; it is
  kept as a constructor of its own, next to the instructions the client builds itself.
\<close>

datatype Instruction =
    SetComputeUnitLimit nat
  | ProgramInstruction TransactionInstruction

record Transaction =
  instructions :: "Instruction list"
  recentBlockhash :: "string option"
  feePayer :: "PublicKey option"

definition new_Transaction :: Transaction where
  "new_Transaction = \<lparr>instructions = [], recentBlockhash = None, feePayer = None\<rparr>"

definition add :: "Transaction \<Rightarrow> Instruction \<Rightarrow> Transaction" where
  "add tx ix = tx\<lparr>instructions := instructions tx @ [ix]\<rparr>"

text \<open>\<open>SystemProgram.programId\<close> is the key made of 32 zero bytes.\<close>

definition SystemProgram_programId :: PublicKey where
  "SystemProgram_programId = PublicKey 0"

text \<open>
  What the RPC node answers during one run. Every request may be rejected (\<open>Inl\<close>);
  \<open>getAccountInfo\<close> answers \<open>None\<close> (JavaScript \<open>null\<close>) when the account does not
  exist and the account's data otherwise.
\<close>

record Connection =
  getAccountInfo :: "PublicKey \<Rightarrow> js_error + Buffer option"
  getBalance :: "PublicKey \<Rightarrow> js_error + nat"
  getLatestBlockhash :: "js_error + string"
  sendRawTransaction :: "Buffer \<Rightarrow> js_error + string"
  confirmTransaction :: "string \<Rightarrow> js_error + unit"

record Wallet =
  connected :: bool
  publicKey :: "PublicKey option"
  signTransaction :: "(Transaction \<Rightarrow> js_error + Transaction) option"

text \<open>
  The requests a run makes, in order. A computation is the list of its requests
  together with its result or the error thrown.
\<close>

datatype event =
    GetAccountInfo PublicKey
  | GetBalance PublicKey
  | GetLatestBlockhash
  | SignTransaction Transaction
  | SendRawTransaction Buffer
  | ConfirmTransaction string
  | SendAndConfirmTransaction Transaction

type_synonym 'a io = "event list \<times> (js_error + 'a)"

definition io_return :: "'a \<Rightarrow> 'a io" where
  "io_return x = ([], Inr x)"

definition io_throw :: "js_error \<Rightarrow> 'a io" where
  "io_throw e = ([], Inl e)"

definition io_of :: "js_error + 'a \<Rightarrow> 'a io" where
  "io_of r = ([], r)"

definition io_await :: "event \<Rightarrow> js_error + 'a \<Rightarrow> 'a io" where
  "io_await ev r = ([ev], r)"

definition io_bind :: "'a io \<Rightarrow> ('a \<Rightarrow> 'b io) \<Rightarrow> 'b io" where
  "io_bind m f =
     (case m of
        (t, Inl e) \<Rightarrow> (t, Inl e)
      | (t, Inr x) \<Rightarrow> (case f x of (t', r) \<Rightarrow> (t @ t', r)))"

section \<open>Address derivation\<close>

text \<open>
  \<open>PublicKey.findProgramAddressSync(seeds, programId)\<close> belongs to the library: it is the
  parameter \<open>derive\<close>, a function of the seeds and the program id that answers the
  address and its bump, or throws.
\<close>

type_synonym pda_finder = "Buffer list \<Rightarrow> PublicKey \<Rightarrow> js_error + PublicKey \<times> nat"

definition getShopPDA :: "pda_finder \<Rightarrow> PublicKey \<Rightarrow> js_error + PublicKey" where
  "getShopPDA derive programId' =
     (case derive [Buffer_from ''shop''] programId' of
        Inl e \<Rightarrow> Inl e
      | Inr (shopPDA, bump) \<Rightarrow> Inr shopPDA)"

definition getItemPDA :: "pda_finder \<Rightarrow> PublicKey \<Rightarrow> nat \<Rightarrow> js_error + PublicKey" where
  "getItemPDA derive programId' id' =
     (case writeBigUInt64LE (Buffer_alloc 8) id' of
        Inl e \<Rightarrow> Inl e
      | Inr idBuffer \<Rightarrow>
          (case derive [Buffer_from ''item'', idBuffer] programId' of
             Inl e \<Rightarrow> Inl e
           | Inr (pda, bump) \<Rightarrow> Inr pda))"

definition getHistoryPDA :: "pda_finder \<Rightarrow> PublicKey \<Rightarrow> PublicKey \<Rightarrow> js_error + PublicKey" where
  "getHistoryPDA derive programId' buyerPublicKey =
     (case derive [Buffer_from ''history'', toBuffer buyerPublicKey] programId' of
        Inl e \<Rightarrow> Inl e
      | Inr (historyPDA, bump) \<Rightarrow> Inr historyPDA)"

section \<open>The shop page\<close>

record ShopItem =
  itemId :: nat
  price :: rat
  metadataUri :: string

record PurchaseRecord =
  item_id :: nat
  timestamp :: rat

text \<open>
  The page's surroundings: the library functions it calls (the derivation of
  addresses, \<open>toString('utf8')\<close> of a buffer, and \<open>serialize()\<close> of a signed
  transaction, which throws when a required signature is missing), the result of
  \<open>new PublicKey(programId)\<close> on the configured program id, the node's answers, the
  node's answers after a purchase was confirmed, the wallet and the clock
  (\<open>Date.now()\<close>, in milliseconds).
\<close>

record ShopPage =
  findProgramAddressSync :: pda_finder
  toString_utf8 :: "Buffer \<Rightarrow> string"
  serialize :: "Transaction \<Rightarrow> js_error + Buffer"
  programPubkey :: "js_error + PublicKey"
  connection :: Connection
  connection_after :: Connection
  wallet :: Wallet
  Date_now :: nat

definition firstPurchase :: "nat list" where
  "firstPurchase = [109, 212, 45, 217, 228, 42, 205, 63]"

definition subsequentPurchase :: "nat list" where
  "subsequentPurchase = [223, 75, 242, 206, 210, 168, 187, 166]"

definition Buffer_from_array :: "nat list \<Rightarrow> Buffer" where
  "Buffer_from_array xs = map of_nat xs"

subsection \<open>fetchItemDetails\<close>

text \<open>
  The parsing of the account data in \<open>fetchItemDetails\<close>. The name, description and
  image of the returned item are presentation, computed from \<open>id\<close> and the metadata
  URI; they are left out.
\<close>

definition fetchItemDetails_parse :: "(Buffer \<Rightarrow> string) \<Rightarrow> Buffer \<Rightarrow> js_error + ShopItem" where
  "fetchItemDetails_parse toString data' =
     (let offset = 8 in
      case readBigUInt64LE data' offset of
        Inl e \<Rightarrow> Inl e
      | Inr itemId' \<Rightarrow>
     (let offset = offset + 8 in
      case readBigUInt64LE data' offset of
        Inl e \<Rightarrow> Inl e
      | Inr price' \<Rightarrow>
     (let offset = offset + 8 in
      case readUInt32LE data' offset of
        Inl e \<Rightarrow> Inl e
      | Inr metadataUriLength \<Rightarrow>
     (let offset = offset + 4 in
      Inr \<lparr>itemId = Number_of_bigint itemId',
           price = js_div (Number_of_bigint price') 1000000000,
           metadataUri = toString (slice data' offset (offset + metadataUriLength))\<rparr>))))"

text \<open>\<open>fetchItemDetails\<close> answers \<open>null\<close> for a missing account and for any error.\<close>

definition fetchItemDetails :: "ShopPage \<Rightarrow> PublicKey \<Rightarrow> nat \<Rightarrow> event list \<times> ShopItem option" where
  "fetchItemDetails page programId' id' =
     (case getItemPDA (findProgramAddressSync page) programId' id' of
        Inl e \<Rightarrow> ([], None)
      | Inr itemPDA \<Rightarrow>
          ([GetAccountInfo itemPDA],
           case getAccountInfo (connection page) itemPDA of
             Inl e \<Rightarrow> None
           | Inr None \<Rightarrow> None
           | Inr (Some data') \<Rightarrow>
               (case fetchItemDetails_parse (toString_utf8 page) data' of
                  Inl e \<Rightarrow> None
                | Inr item \<Rightarrow> Some item)))"

subsection \<open>checkPurchaseHistory\<close>

text \<open>The loop over the purchase records: \<open>n\<close> records are still to be read at \<open>offset\<close>.\<close>

fun parse_purchases :: "Buffer \<Rightarrow> nat \<Rightarrow> nat \<Rightarrow> js_error + PurchaseRecord list" where
  "parse_purchases data' offset 0 = Inr []"
| "parse_purchases data' offset (Suc n) =
     (case readBigUInt64LE data' offset of
        Inl e \<Rightarrow> Inl e
      | Inr itemId' \<Rightarrow>
          (case readBigInt64LE data' (offset + 8) of
             Inl e \<Rightarrow> Inl e
           | Inr timestamp' \<Rightarrow>
               (case parse_purchases data' (offset + 16) n of
                  Inl e \<Rightarrow> Inl e
                | Inr purchases \<Rightarrow>
                    Inr (\<lparr>item_id = Number_of_bigint itemId',
                          timestamp = of_int (Number_of_signed_bigint timestamp')\<rparr>
                         # purchases))))"

text \<open>
  The inner \<open>try\<close> block of \<open>checkPurchaseHistory\<close>: the list it hands to
  \<open>setPurchaseHistory\<close>, or the error it throws.
\<close>

definition checkPurchaseHistory_parse :: "PublicKey \<Rightarrow> Buffer \<Rightarrow> js_error + PurchaseRecord list" where
  "checkPurchaseHistory_parse walletKey data' =
     (let offset = 8 in
      case new_PublicKey (slice data' offset (offset + 32)) of
        Inl e \<Rightarrow> Inl e
      | Inr userPubkey \<Rightarrow>
     (let offset = offset + 32 in
      if \<not> equals userPubkey walletKey then Inr []
      else
        (case readUInt32LE data' offset of
           Inl e \<Rightarrow> Inl e
         | Inr purchasesLength \<Rightarrow> parse_purchases data' (offset + 4) purchasesLength)))"

text \<open>
  \<open>checkPurchaseHistory\<close> answers the argument of its call of \<open>setPurchaseHistory\<close>,
  or \<open>None\<close> when it returns without calling it (no wallet, or an error outside the
  inner \<open>try\<close>, which is only logged).
\<close>

definition checkPurchaseHistory :: "ShopPage \<Rightarrow> event list \<times> PurchaseRecord list option" where
  "checkPurchaseHistory page =
     (case publicKey (wallet page) of
        None \<Rightarrow> ([], None)
      | Some walletKey \<Rightarrow>
          if \<not> connected (wallet page) then ([], None)
          else
            (case programPubkey page of
               Inl e \<Rightarrow> ([], None)
             | Inr programPubkey' \<Rightarrow>
                 (case getHistoryPDA (findProgramAddressSync page) programPubkey' walletKey of
                    Inl e \<Rightarrow> ([], None)
                  | Inr historyPDA \<Rightarrow>
                      ([GetAccountInfo historyPDA],
                       case getAccountInfo (connection page) historyPDA of
                         Inl e \<Rightarrow> None
                       | Inr None \<Rightarrow> Some []
                       | Inr (Some data') \<Rightarrow>
                           (case checkPurchaseHistory_parse walletKey data' of
                              Inr purchases \<Rightarrow> Some purchases
                            | Inl e \<Rightarrow>
                                Some [\<lparr>item_id = 1,
                                       timestamp = js_div (Date_now page) 1000\<rparr>])))))"


subsection \<open>handlePurchase\<close>

text \<open>The transaction \<open>handlePurchase\<close> creates, before the blockhash is set.\<close>

definition handlePurchase_transaction ::
  "PublicKey \<Rightarrow> PublicKey \<Rightarrow> PublicKey \<Rightarrow> PublicKey \<Rightarrow> PublicKey \<Rightarrow> PublicKey \<Rightarrow> bool \<Rightarrow> Transaction" where
  "handlePurchase_transaction walletKey programPubkey' shopPDA itemPDA historyPDA adminPubkey historyExists =
     (let transaction = new_Transaction;
          transaction = add transaction (SetComputeUnitLimit 1000000);
          discriminator = (if historyExists then subsequentPurchase else firstPurchase);
          dataLayout = Buffer_from_array discriminator
      in add transaction (ProgramInstruction
           \<lparr>keys =
              [\<lparr>pubkey = walletKey, isSigner = True, isWritable = True\<rparr>,
               \<lparr>pubkey = shopPDA, isSigner = False, isWritable = False\<rparr>,
               \<lparr>pubkey = itemPDA, isSigner = False, isWritable = False\<rparr>,
               \<lparr>pubkey = adminPubkey, isSigner = False, isWritable = True\<rparr>,
               \<lparr>pubkey = historyPDA, isSigner = False, isWritable = True\<rparr>,
               \<lparr>pubkey = SystemProgram_programId, isSigner = False, isWritable = False\<rparr>],
            programId = programPubkey',
            data = dataLayout\<rparr>))"

text \<open>
  The \<open>try\<close> block of \<open>handlePurchase\<close>. It ends with the signature of the confirmed
  transaction and the refreshed purchase history, or with the error thrown.
\<close>

definition handlePurchase_try :: "ShopPage \<Rightarrow> PublicKey \<Rightarrow> nat \<Rightarrow> (string \<times> PurchaseRecord list option) io" where
  "handlePurchase_try page walletKey itemId' =
     io_bind (io_of (programPubkey page)) (\<lambda>programPubkey'.
     io_bind (io_of (getShopPDA (findProgramAddressSync page) programPubkey')) (\<lambda>shopPDA.
     io_bind (io_of (getItemPDA (findProgramAddressSync page) programPubkey' itemId')) (\<lambda>itemPDA.
     io_bind (io_of (getHistoryPDA (findProgramAddressSync page) programPubkey' walletKey)) (\<lambda>historyPDA.
     io_bind (io_await (GetAccountInfo shopPDA) (getAccountInfo (connection page) shopPDA)) (\<lambda>shopAccount.
     case shopAccount of
       None \<Rightarrow> io_throw ShopNotInitialized
     | Some shopData \<Rightarrow>
     io_bind (io_of (new_PublicKey (slice shopData 8 40))) (\<lambda>adminPubkey.
     io_bind (io_await (GetAccountInfo itemPDA) (getAccountInfo (connection page) itemPDA)) (\<lambda>itemAccount.
     case itemAccount of
       None \<Rightarrow> io_throw (ItemNotFound itemId')
     | Some itemData \<Rightarrow>
     io_bind (io_of (readBigUInt64LE itemData 16)) (\<lambda>itemPriceBig.
     let itemPrice = Number_of_bigint itemPriceBig in
     io_bind (io_await (GetBalance walletKey) (getBalance (connection page) walletKey)) (\<lambda>buyerBalance.
     if buyerBalance < itemPrice then io_throw (InsufficientFunds itemPrice buyerBalance)
     else
     io_bind (io_await (GetAccountInfo historyPDA) (getAccountInfo (connection page) historyPDA)) (\<lambda>historyAccount.
     let historyExists = (historyAccount \<noteq> None);
         transaction = handlePurchase_transaction walletKey programPubkey' shopPDA itemPDA
                         historyPDA adminPubkey historyExists in
     io_bind (io_await GetLatestBlockhash (getLatestBlockhash (connection page))) (\<lambda>blockhash.
     let transaction = transaction\<lparr>recentBlockhash := Some blockhash, feePayer := Some walletKey\<rparr> in
     case signTransaction (wallet page) of
       None \<Rightarrow> io_throw WalletCannotSign
     | Some sign \<Rightarrow>
     io_bind (io_await (SignTransaction transaction) (sign transaction)) (\<lambda>signedTransaction.
     io_bind (io_of (serialize page signedTransaction)) (\<lambda>rawTransaction.
     io_bind (io_await (SendRawTransaction rawTransaction)
                (sendRawTransaction (connection page) rawTransaction)) (\<lambda>signature.
     io_bind (io_await (ConfirmTransaction signature)
                (confirmTransaction (connection page) signature)) (\<lambda>confirmed.
     case checkPurchaseHistory (page\<lparr>connection := connection_after page\<rparr>) of
       (t, refreshed) \<Rightarrow> (t, Inr (signature, refreshed)))))))))))))))))"

datatype purchase_outcome =
    WalletNotConnected
  | PurchaseFailed js_error
  | PurchaseSuccessful string "PurchaseRecord list option"

text \<open>
  \<open>handlePurchase\<close> ends with one of three toasts: \<open>Wallet not connected\<close>,
  \<open>Purchase failed\<close> with the message of the error caught, or \<open>Purchase successful!\<close>.
\<close>

definition handlePurchase :: "ShopPage \<Rightarrow> nat \<Rightarrow> event list \<times> purchase_outcome" where
  "handlePurchase page itemId' =
     (case publicKey (wallet page) of
        None \<Rightarrow> ([], WalletNotConnected)
      | Some walletKey \<Rightarrow>
          if \<not> connected (wallet page) then ([], WalletNotConnected)
          else
            (case handlePurchase_try page walletKey itemId' of
               (t, Inl e) \<Rightarrow> (t, PurchaseFailed e)
             | (t, Inr (signature, refreshed)) \<Rightarrow> (t, PurchaseSuccessful signature refreshed)))"

section \<open>The operator scripts\<close>

text \<open>
  What a script finds when it starts: the program id of the IDL, the node's answers,
  \<open>sendAndConfirmTransaction\<close> of the library (which signs with the script's keypair),
  the public key of the loaded wallet (the buyer's in the purchase script, the admin's
  in the admin scripts), the admin's public key, and the Anchor coder built from the
  IDL: \<open>coder.decode('Item', data)\<close> answers \<open>(id, price, metadataUri)\<close> with both
  numbers as big numbers, \<open>program.coder.instruction.encode(name, {})\<close> the bytes of an
  instruction without arguments.
\<close>

record Script =
  script_programId :: PublicKey
  script_connection :: Connection
  sendAndConfirmTransaction :: "Transaction \<Rightarrow> js_error + string"
  wallet_publicKey :: PublicKey
  adminPublicKey :: PublicKey
  coder_decode_Item :: "Buffer \<Rightarrow> js_error + nat \<times> nat \<times> string"
  coder_instruction_encode :: "string \<Rightarrow> Buffer"

subsection \<open>purchaseItem\<close>

text \<open>
  \<open>purchaseItem\<close> answers \<open>true\<close> after a confirmed purchase (\<open>Inr\<close> with the
  signature) and \<open>false\<close> after logging an error (\<open>Inl\<close> with that error). After a
  purchase it reads the history account once more, only to print it.
\<close>

definition purchaseItem_keys :: "PublicKey \<Rightarrow> PublicKey \<Rightarrow> PublicKey \<Rightarrow> PublicKey \<Rightarrow> PublicKey \<Rightarrow> AccountMeta list" where
  "purchaseItem_keys buyer shopPDA itemPDA admin historyPDA =
     [\<lparr>pubkey = buyer, isSigner = True, isWritable = True\<rparr>,
      \<lparr>pubkey = shopPDA, isSigner = False, isWritable = False\<rparr>,
      \<lparr>pubkey = itemPDA, isSigner = False, isWritable = False\<rparr>,
      \<lparr>pubkey = admin, isSigner = False, isWritable = True\<rparr>,
      \<lparr>pubkey = historyPDA, isSigner = False, isWritable = True\<rparr>,
      \<lparr>pubkey = SystemProgram_programId, isSigner = False, isWritable = False\<rparr>]"

definition purchaseItem_transaction :: "Script \<Rightarrow> PublicKey \<Rightarrow> PublicKey \<Rightarrow> PublicKey \<Rightarrow> bool \<Rightarrow> Transaction" where
  "purchaseItem_transaction script shopPDA itemPDA historyPDA historyExists =
     (let transaction = new_Transaction;
          transaction = add transaction (SetComputeUnitLimit 1000000)
      in if historyExists then
           (let instructionData = coder_instruction_encode script ''subsequentPurchase''
            in add transaction (ProgramInstruction
                 \<lparr>keys = purchaseItem_keys (wallet_publicKey script) shopPDA itemPDA
                           (adminPublicKey script) historyPDA,
                  programId = script_programId script,
                  data = instructionData\<rparr>))
         else
           (let instructionData = coder_instruction_encode script ''firstPurchase''
            in add transaction (ProgramInstruction
                 \<lparr>keys = purchaseItem_keys (wallet_publicKey script) shopPDA itemPDA
                           (adminPublicKey script) historyPDA,
                  programId = script_programId script,
                  data = instructionData\<rparr>)))"

definition checkPurchaseHistoryForWallet_requests :: "pda_finder \<Rightarrow> Script \<Rightarrow> event list" where
  "checkPurchaseHistoryForWallet_requests derive script =
     (case getHistoryPDA derive (script_programId script) (wallet_publicKey script) of
        Inl e \<Rightarrow> []
      | Inr historyPDA \<Rightarrow> [GetAccountInfo historyPDA])"

definition purchaseItem :: "pda_finder \<Rightarrow> Script \<Rightarrow> nat \<Rightarrow> string io" where
  "purchaseItem derive script itemId' =
     io_bind (io_of (getShopPDA derive (script_programId script))) (\<lambda>shopPDA.
     io_bind (io_of (getItemPDA derive (script_programId script) itemId')) (\<lambda>itemPDA.
     io_bind (io_of (getHistoryPDA derive (script_programId script) (wallet_publicKey script))) (\<lambda>historyPDA.
     io_bind (io_await (GetAccountInfo itemPDA)
                (getAccountInfo (script_connection script) itemPDA)) (\<lambda>itemAccount.
     case itemAccount of
       None \<Rightarrow> io_throw (ItemNotFound itemId')
     | Some itemData \<Rightarrow>
     io_bind (io_await (GetAccountInfo historyPDA)
                (getAccountInfo (script_connection script) historyPDA)) (\<lambda>historyAccount.
     let historyExists = (historyAccount \<noteq> None) in
     io_bind (io_of (coder_decode_Item script itemData)) (\<lambda>(item_id', item_price, item_uri).
     io_bind (io_await (GetBalance (wallet_publicKey script))
                (getBalance (script_connection script) (wallet_publicKey script))) (\<lambda>buyerBalance.
     if buyerBalance < Number_of_bigint item_price
     then io_throw (InsufficientFunds (Number_of_bigint item_price) buyerBalance)
     else
     let transaction = purchaseItem_transaction script shopPDA itemPDA historyPDA historyExists in
     io_bind (io_await (SendAndConfirmTransaction transaction)
                (sendAndConfirmTransaction script transaction)) (\<lambda>signature.
     (checkPurchaseHistoryForWallet_requests derive script, Inr signature)))))))))"

subsection \<open>The admin scripts\<close>

text \<open>
  The instruction data of \<open>add_item\<close>, as \<open>addItem\<close> and \<open>addItemWithMetadata\<close> both
  lay it out: the discriminator, the id and the price on 8 bytes each, the byte length
  of the metadata URI on 4 bytes, and the bytes of the URI.
\<close>

definition add_item_discriminator :: "nat list" where
  "add_item_discriminator = [225, 38, 79, 147, 116, 142, 147, 57]"

definition initialize_shop_discriminator :: "nat list" where
  "initialize_shop_discriminator = [76, 158, 246, 22, 47, 236, 107, 186]"

definition add_item_data :: "nat \<Rightarrow> nat \<Rightarrow> string \<Rightarrow> js_error + Buffer" where
  "add_item_data id' price' metadataUri' =
     (let discriminator = Buffer_from_array add_item_discriminator in
      case writeBigUInt64LE (Buffer_alloc 8) id' of
        Inl e \<Rightarrow> Inl e
      | Inr idBuffer \<Rightarrow>
          (case writeBigUInt64LE (Buffer_alloc 8) price' of
             Inl e \<Rightarrow> Inl e
           | Inr priceBuffer \<Rightarrow>
               (let metadataUriBuffer = Buffer_from metadataUri' in
                case writeUInt32LE (Buffer_alloc 4) (length metadataUriBuffer) of
                  Inl e \<Rightarrow> Inl e
                | Inr metadataUriLengthBuffer \<Rightarrow>
                    Inr (concat [discriminator, idBuffer, priceBuffer,
                                 metadataUriLengthBuffer, metadataUriBuffer]))))"

definition add_item_keys :: "PublicKey \<Rightarrow> PublicKey \<Rightarrow> PublicKey \<Rightarrow> AccountMeta list" where
  "add_item_keys walletKey shopPDA itemPDA =
     [\<lparr>pubkey = walletKey, isSigner = True, isWritable = True\<rparr>,
      \<lparr>pubkey = shopPDA, isSigner = False, isWritable = True\<rparr>,
      \<lparr>pubkey = itemPDA, isSigner = False, isWritable = True\<rparr>,
      \<lparr>pubkey = SystemProgram_programId, isSigner = False, isWritable = False\<rparr>]"

definition add_item_transaction :: "Script \<Rightarrow> PublicKey \<Rightarrow> PublicKey \<Rightarrow> Buffer \<Rightarrow> Transaction" where
  "add_item_transaction script shopPDA itemPDA data' =
     (let transaction = new_Transaction;
          transaction = add transaction (SetComputeUnitLimit 1000000)
      in add transaction (ProgramInstruction
           \<lparr>keys = add_item_keys (wallet_publicKey script) shopPDA itemPDA,
            programId = script_programId script,
            data = data'\<rparr>))"

text \<open>
  The metadata file read by \<open>addItemWithMetadata\<close>; a field that is absent is \<open>None\<close>.
  The script answers the item's address (\<open>Some\<close>), or \<open>null\<close> when id or price is
  missing or zero, or rethrows.
\<close>

record Metadata =
  metadata_id :: "nat option"
  metadata_price :: "nat option"
  image_url :: "string option"

definition falsy :: "nat option \<Rightarrow> bool" where
  "falsy v = (v = None \<or> v = Some 0)"

definition addItemWithMetadata :: "pda_finder \<Rightarrow> Script \<Rightarrow> Metadata \<Rightarrow> PublicKey option io" where
  "addItemWithMetadata derive script metadata =
     (case (metadata_id metadata, metadata_price metadata) of
        (Some id', Some price') \<Rightarrow>
          if falsy (Some id') \<or> falsy (Some price') then io_return None
          else
            (let simplifiedMetadata =
                   ''image:'' @ (case image_url metadata of None \<Rightarrow> [] | Some u \<Rightarrow> u) in
             io_bind (io_of (getShopPDA derive (script_programId script))) (\<lambda>shopPDA.
             io_bind (io_of (getItemPDA derive (script_programId script) id')) (\<lambda>itemPDA.
             io_bind (io_await (GetAccountInfo itemPDA)
                        (getAccountInfo (script_connection script) itemPDA)) (\<lambda>existingItem.
             if existingItem \<noteq> None then io_return (Some itemPDA)
             else
             io_bind (io_of (add_item_data id' price' simplifiedMetadata)) (\<lambda>data'.
             let transaction = add_item_transaction script shopPDA itemPDA data' in
             io_bind (io_await (SendAndConfirmTransaction transaction)
                        (sendAndConfirmTransaction script transaction)) (\<lambda>tx.
             io_return (Some itemPDA)))))))
      | _ \<Rightarrow> io_return None)"

definition addItem :: "pda_finder \<Rightarrow> Script \<Rightarrow> nat \<Rightarrow> nat \<Rightarrow> string \<Rightarrow> PublicKey io" where
  "addItem derive script id' price' metadataUri' =
     io_bind (io_of (getShopPDA derive (script_programId script))) (\<lambda>shopPDA.
     io_bind (io_of (getItemPDA derive (script_programId script) id')) (\<lambda>itemPDA.
     io_bind (io_of (add_item_data id' price' metadataUri')) (\<lambda>data'.
     let transaction = add_item_transaction script shopPDA itemPDA data' in
     io_bind (io_await (SendAndConfirmTransaction transaction)
                (sendAndConfirmTransaction script transaction)) (\<lambda>tx.
     io_return itemPDA))))"

definition initializeShop_transaction :: "Script \<Rightarrow> PublicKey \<Rightarrow> Transaction" where
  "initializeShop_transaction script shopPDA =
     (let transaction = add new_Transaction (SetComputeUnitLimit 1000000)
      in add transaction (ProgramInstruction
           \<lparr>keys =
              [\<lparr>pubkey = wallet_publicKey script, isSigner = True, isWritable = True\<rparr>,
               \<lparr>pubkey = shopPDA, isSigner = False, isWritable = True\<rparr>,
               \<lparr>pubkey = SystemProgram_programId, isSigner = False, isWritable = False\<rparr>],
            programId = script_programId script,
            data = Buffer_from_array initialize_shop_discriminator\<rparr>))"

definition initializeShop :: "pda_finder \<Rightarrow> Script \<Rightarrow> PublicKey io" where
  "initializeShop derive script =
     io_bind (io_of (getShopPDA derive (script_programId script))) (\<lambda>shopPDA.
     io_bind (io_await (GetAccountInfo shopPDA)
                (getAccountInfo (script_connection script) shopPDA)) (\<lambda>shopAccount.
     if shopAccount \<noteq> None then io_return shopPDA
     else
     let transaction = initializeShop_transaction script shopPDA in
     io_bind (io_await (SendAndConfirmTransaction transaction)
                (sendAndConfirmTransaction script transaction)) (\<lambda>tx.
     io_return shopPDA)))"

text \<open>\<open>getItem\<close> of the shop client script: the item as the script returns it.\<close>

record Item =
  item_id_number :: nat
  item_price_number :: nat
  item_metadataUri :: string

definition getItem_parse :: "(Buffer \<Rightarrow> string) \<Rightarrow> Buffer \<Rightarrow> js_error + Item" where
  "getItem_parse toString accountData =
     (let data' = slice accountData 8 (length accountData) in
      case readBigUInt64LE data' 0 of
        Inl e \<Rightarrow> Inl e
      | Inr itemId' \<Rightarrow>
          (case readBigUInt64LE data' 8 of
             Inl e \<Rightarrow> Inl e
           | Inr price' \<Rightarrow>
               (case readUInt32LE data' 16 of
                  Inl e \<Rightarrow> Inl e
                | Inr metadataUriLength \<Rightarrow>
                    Inr \<lparr>item_id_number = Number_of_bigint itemId',
                         item_price_number = Number_of_bigint price',
                         item_metadataUri =
                           toString (slice data' 20 (20 + metadataUriLength))\<rparr>)))"

text \<open>
  \<open>getItem\<close> answers the item, or \<open>null\<close> when the account is missing. An error is
  caught, logged and thrown again, so the call ends with the error that was thrown.
\<close>

definition getItem :: "pda_finder \<Rightarrow> Script \<Rightarrow> (Buffer \<Rightarrow> string) \<Rightarrow> nat \<Rightarrow> Item option io" where
  "getItem derive script toString id' =
     io_bind (io_of (getItemPDA derive (script_programId script) id')) (\<lambda>itemPDA.
     io_bind (io_await (GetAccountInfo itemPDA)
                (getAccountInfo (script_connection script) itemPDA)) (\<lambda>accountInfo.
     case accountInfo of
       None \<Rightarrow> io_return None
     | Some accountData \<Rightarrow>
         io_bind (io_of (getItem_parse toString accountData)) (\<lambda>item.
         io_return (Some item))))"

section \<open>The network alert\<close>

record NetworkConfig =
  name :: string
  endpoint :: string
  explorerUrl :: string

definition SOLANA_NETWORK :: string where
  "SOLANA_NETWORK = ''testnet''"

definition NETWORK_PROVIDER :: string where
  "NETWORK_PROVIDER = ''sonic''"

definition SONIC_NETWORKS :: "(string \<times> NetworkConfig) list" where
  "SONIC_NETWORKS =
     [(''mainnet-beta'',
       \<lparr>name = ''Sonic Mainnet Beta'',
        endpoint = ''https://api.mainnet-alpha.sonic.game'',
        explorerUrl = ''https://explorer.sonic.game''\<rparr>),
      (''testnet'',
       \<lparr>name = ''Sonic Testnet'',
        endpoint = ''https://api.testnet.sonic.game'',
        explorerUrl = ''https://explorer.testnet.sonic.game''\<rparr>)]"

definition SOLANA_NETWORKS_CONFIG :: "(string \<times> NetworkConfig) list" where
  "SOLANA_NETWORKS_CONFIG =
     [(''mainnet-beta'',
       \<lparr>name = ''Solana Mainnet Beta'',
        endpoint = ''https://api.mainnet-beta.solana.com'',
        explorerUrl = ''https://explorer.solana.com''\<rparr>),
      (''testnet'',
       \<lparr>name = ''Solana Testnet'',
        endpoint = ''https://api.testnet.solana.com'',
        explorerUrl = ''https://explorer.solana.com/?cluster=testnet''\<rparr>),
      (''devnet'',
       \<lparr>name = ''Solana Devnet'',
        endpoint = ''https://api.devnet.solana.com'',
        explorerUrl = ''https://explorer.solana.com/?cluster=devnet''\<rparr>)]"

text \<open>\<open>CURRENT_NETWORK\<close>; \<open>None\<close> stands for \<open>undefined\<close>, a key the object does not have.\<close>

definition CURRENT_NETWORK :: "NetworkConfig option" where
  "CURRENT_NETWORK =
     (if NETWORK_PROVIDER = ''sonic'' then map_of SONIC_NETWORKS SOLANA_NETWORK
      else map_of SOLANA_NETWORKS_CONFIG SOLANA_NETWORK)"

record DetectedNetwork =
  provider :: string
  network :: string
  detected_name :: string

text \<open>
  \<open>genesisOf endpoint\<close> is the answer of \<open>new Connection(endpoint).getGenesisHash()\<close>.
  One \<open>for\<close> loop of \<open>checkNetwork\<close> over the entries of a catalog: an endpoint that
  fails is logged and skipped, the first entry whose hash is the live one ends the loop.
  The loop answers the endpoints it has asked, in order, and the entry it has found.
\<close>

fun probe :: "(string \<Rightarrow> js_error + string) \<Rightarrow> string \<Rightarrow> (string \<times> NetworkConfig) list
    \<Rightarrow> string list \<times> (string \<times> NetworkConfig) option" where
  "probe genesisOf genesisHash [] = ([], None)"
| "probe genesisOf genesisHash ((network', config) # entries) =
     (case genesisOf (endpoint config) of
        Inl e \<Rightarrow>
          (case probe genesisOf genesisHash entries of
             (asked, found) \<Rightarrow> (endpoint config # asked, found))
      | Inr hash \<Rightarrow>
          if genesisHash = hash then ([endpoint config], Some (network', config))
          else
            (case probe genesisOf genesisHash entries of
               (asked, found) \<Rightarrow> (endpoint config # asked, found)))"

text \<open>
  \<open>checkNetwork\<close> answers the endpoints it has asked and, unless it only logs an error
  (\<open>None\<close>), the value given to \<open>setIsCorrectNetwork\<close> with the network given to
  \<open>setDetectedNetwork\<close>, if any; the toast names \<open>detected_name\<close>.
\<close>

definition checkNetwork :: "(js_error + string) \<Rightarrow> (string \<Rightarrow> js_error + string)
    \<Rightarrow> string list \<times> (bool \<times> DetectedNetwork option) option" where
  "checkNetwork getGenesisHash genesisOf =
     (case getGenesisHash of
        Inl e \<Rightarrow> ([], None)
      | Inr genesisHash \<Rightarrow>
          (case CURRENT_NETWORK of
             None \<Rightarrow> ([], None)
           | Some current \<Rightarrow>
               (case genesisOf (endpoint current) of
                  Inl e \<Rightarrow> ([endpoint current], None)
                | Inr expectedGenesisHash \<Rightarrow>
                    (let onCorrectNetwork = (genesisHash = expectedGenesisHash) in
                     if \<not> onCorrectNetwork then
                       (case probe genesisOf genesisHash SONIC_NETWORKS of
                          (asked, Some (network', config)) \<Rightarrow>
                            (endpoint current # asked,
                             Some (False,
                               Some \<lparr>provider = ''sonic'', network = network',
                                     detected_name = name config\<rparr>))
                        | (asked, None) \<Rightarrow>
                            (case probe genesisOf genesisHash SOLANA_NETWORKS_CONFIG of
                               (asked', Some (network', config)) \<Rightarrow>
                                 (endpoint current # asked @ asked',
                                  Some (False,
                                    Some \<lparr>provider = ''solana'', network = network',
                                          detected_name = name config\<rparr>))
                             | (asked', None) \<Rightarrow>
                                 (endpoint current # asked @ asked',
                                  Some (False,
                                    Some \<lparr>provider = ''unknown'', network = ''unknown'',
                                          detected_name = ''Unknown Network''\<rparr>))))
                     else ([endpoint current], Some (True, None))))))"

section \<open>An example run\<close>

text \<open>
  The scenario used to exercise the definitions: item 1 costs 1000000000 lamports and
  has the metadata URI \<open>image:https://x/y.png\<close>, the buyer is the key 5, the admin the
  key 7, the program the key 9. The stand-in for the library's derivation answers
  the key whose number is the total length of the seeds: 4 for the shop, 12 for an
  item, 39 for a history. The stand-in for \<open>serialize\<close> answers the data of the
  program instructions, and throws when the transaction has no fee payer.
\<close>

definition example_derive :: pda_finder where
  "example_derive seeds programId' = Inr (PublicKey (length (concat seeds)), 255)"

definition example_toString :: "Buffer \<Rightarrow> string" where
  "example_toString buf = map (\<lambda>b. char_of (unat b)) buf"

definition example_shop_data :: Buffer where
  "example_shop_data =
     [0, 0, 0, 0, 0, 0, 0, 0,
      0, 0, 0, 0, 0, 0, 0, 0, 0, 0, 0, 0, 0, 0, 0, 0,
      0, 0, 0, 0, 0, 0, 0, 0, 0, 0, 0, 0, 0, 0, 0, 7,
      1, 0, 0, 0, 0, 0, 0, 0]"

definition example_item_data :: Buffer where
  "example_item_data =
     [0, 0, 0, 0, 0, 0, 0, 0,
      1, 0, 0, 0, 0, 0, 0, 0,
      0, 202, 154, 59, 0, 0, 0, 0,
      21, 0, 0, 0] @ Buffer_from ''image:https://x/y.png''"

definition example_history_data :: Buffer where
  "example_history_data =
     [0, 0, 0, 0, 0, 0, 0, 0,
      0, 0, 0, 0, 0, 0, 0, 0, 0, 0, 0, 0, 0, 0, 0, 0,
      0, 0, 0, 0, 0, 0, 0, 0, 0, 0, 0, 0, 0, 0, 0, 5,
      1, 0, 0, 0,
      1, 0, 0, 0, 0, 0, 0, 0,
      0, 241, 83, 101, 0, 0, 0, 0]"

definition example_accounts :: "Buffer option \<Rightarrow> Buffer option \<Rightarrow> nat \<Rightarrow> Buffer option" where
  "example_accounts item history n =
     (if n = 4 then Some example_shop_data
      else if n = 12 then item
      else if n = 39 then history
      else None)"

definition example_connection :: "(nat \<Rightarrow> Buffer option) \<Rightarrow> nat \<Rightarrow> Connection" where
  "example_connection accounts balance =
     \<lparr>getAccountInfo = (\<lambda>k. Inr (accounts (bn k))),
      getBalance = (\<lambda>k. Inr balance),
      getLatestBlockhash = Inr ''blockhash'',
      sendRawTransaction = (\<lambda>tx. Inr ''signature''),
      confirmTransaction = (\<lambda>s. Inr ())\<rparr>"

definition example_serialize :: "Transaction \<Rightarrow> js_error + Buffer" where
  "example_serialize tx =
     (case feePayer tx of
        None \<Rightarrow> Inl (Rejected ''Transaction fee payer required'')
      | Some payer \<Rightarrow>
          Inr (concat (map (\<lambda>instruction.
                 case instruction of
                   SetComputeUnitLimit units \<Rightarrow> []
                 | ProgramInstruction main \<Rightarrow> data main) (instructions tx))))"

definition example_wallet :: Wallet where
  "example_wallet =
     \<lparr>connected = True, publicKey = Some (PublicKey 5),
      signTransaction = Some (\<lambda>tx. Inr tx)\<rparr>"

definition example_page :: "Buffer option \<Rightarrow> Buffer option \<Rightarrow> nat \<Rightarrow> ShopPage" where
  "example_page item history balance =
     \<lparr>findProgramAddressSync = example_derive,
      toString_utf8 = example_toString,
      serialize = example_serialize,
      programPubkey = Inr (PublicKey 9),
      connection = example_connection (example_accounts item history) balance,
      connection_after =
        example_connection (example_accounts item (Some example_history_data)) balance,
      wallet = example_wallet,
      Date_now = 1800000000000\<rparr>"

definition example_keys :: "AccountMeta list" where
  "example_keys =
     [\<lparr>pubkey = PublicKey 5, isSigner = True, isWritable = True\<rparr>,
      \<lparr>pubkey = PublicKey 4, isSigner = False, isWritable = False\<rparr>,
      \<lparr>pubkey = PublicKey 12, isSigner = False, isWritable = False\<rparr>,
      \<lparr>pubkey = PublicKey 7, isSigner = False, isWritable = True\<rparr>,
      \<lparr>pubkey = PublicKey 39, isSigner = False, isWritable = True\<rparr>,
      \<lparr>pubkey = PublicKey 0, isSigner = False, isWritable = False\<rparr>]"

definition example_tag :: "bool \<Rightarrow> Buffer" where
  "example_tag historyExists =
     (if historyExists then [223, 75, 242, 206, 210, 168, 187, 166]
      else [109, 212, 45, 217, 228, 42, 205, 63])"

definition example_transaction :: "bool \<Rightarrow> Transaction" where
  "example_transaction historyExists =
     \<lparr>instructions =
        [SetComputeUnitLimit 1000000,
         ProgramInstruction
           \<lparr>keys = example_keys, programId = PublicKey 9, data = example_tag historyExists\<rparr>],
      recentBlockhash = Some ''blockhash'',
      feePayer = Some (PublicKey 5)\<rparr>"

definition example_script :: "(nat \<Rightarrow> Buffer option) \<Rightarrow> nat \<Rightarrow> Script" where
  "example_script accounts balance =
     \<lparr>script_programId = PublicKey 9,
      script_connection = example_connection accounts balance,
      sendAndConfirmTransaction = (\<lambda>tx. Inr ''signature''),
      wallet_publicKey = PublicKey 5,
      adminPublicKey = PublicKey 7,
      coder_decode_Item = (\<lambda>buf. Inr (1, 1000000000, ''image:https://x/y.png'')),
      coder_instruction_encode =
        (\<lambda>name. example_tag (name = ''subsequentPurchase''))\<rparr>"

definition example_script_transaction :: "bool \<Rightarrow> Transaction" where
  "example_script_transaction historyExists =
     \<lparr>instructions =
        [SetComputeUnitLimit 1000000,
         ProgramInstruction
           \<lparr>keys = example_keys, programId = PublicKey 9, data = example_tag historyExists\<rparr>],
      recentBlockhash = None,
      feePayer = None\<rparr>"


definition example_metadata :: Metadata where
  "example_metadata =
     \<lparr>metadata_id = Some 1, metadata_price = Some 1000000000,
      image_url = Some ''https://x/y.png''\<rparr>"

definition example_add_item_bytes :: Buffer where
  "example_add_item_bytes =
     [225, 38, 79, 147, 116, 142, 147, 57,
      1, 0, 0, 0, 0, 0, 0, 0,
      0, 202, 154, 59, 0, 0, 0, 0,
      21, 0, 0, 0] @ Buffer_from ''image:https://x/y.png''"

definition example_add_item_transaction :: Transaction where
  "example_add_item_transaction =
     \<lparr>instructions =
        [SetComputeUnitLimit 1000000,
         ProgramInstruction
           \<lparr>keys =
              [\<lparr>pubkey = PublicKey 5, isSigner = True, isWritable = True\<rparr>,
               \<lparr>pubkey = PublicKey 4, isSigner = False, isWritable = True\<rparr>,
               \<lparr>pubkey = PublicKey 12, isSigner = False, isWritable = True\<rparr>,
               \<lparr>pubkey = PublicKey 0, isSigner = False, isWritable = False\<rparr>],
            programId = PublicKey 9,
            data = example_add_item_bytes\<rparr>],
      recentBlockhash = None,
      feePayer = None\<rparr>"

definition example_initialize_transaction :: Transaction where
  "example_initialize_transaction =
     \<lparr>instructions =
        [SetComputeUnitLimit 1000000,
         ProgramInstruction
           \<lparr>keys =
              [\<lparr>pubkey = PublicKey 5, isSigner = True, isWritable = True\<rparr>,
               \<lparr>pubkey = PublicKey 4, isSigner = False, isWritable = True\<rparr>,
               \<lparr>pubkey = PublicKey 0, isSigner = False, isWritable = False\<rparr>],
            programId = PublicKey 9,
            data = [76, 158, 246, 22, 47, 236, 107, 186]\<rparr>],
      recentBlockhash = None,
      feePayer = None\<rparr>"

text \<open>
  An item whose price is 9007199254740993 lamports (\<open>2 ^ 53 + 1\<close>), a number that
  JavaScript's \<open>Number\<close> does not represent.
\<close>

definition example_costly_item_data :: Buffer where
  "example_costly_item_data =
     [0, 0, 0, 0, 0, 0, 0, 0,
      1, 0, 0, 0, 0, 0, 0, 0,
      1, 0, 0, 0, 0, 0, 32, 0,
      21, 0, 0, 0] @ Buffer_from ''image:https://x/y.png''"


definition example_truncated_history_data :: Buffer where
  "example_truncated_history_data =
     [0, 0, 0, 0, 0, 0, 0, 0,
      0, 0, 0, 0, 0, 0, 0, 0, 0, 0, 0, 0, 0, 0, 0, 0,
      0, 0, 0, 0, 0, 0, 0, 0, 0, 0, 0, 0, 0, 0, 0, 5,
      1, 0, 0, 0]"

definition example_foreign_history_data :: Buffer where
  "example_foreign_history_data =
     [0, 0, 0, 0, 0, 0, 0, 0,
      0, 0, 0, 0, 0, 0, 0, 0, 0, 0, 0, 0, 0, 0, 0, 0,
      0, 0, 0, 0, 0, 0, 0, 0, 0, 0, 0, 0, 0, 0, 0, 6,
      1, 0, 0, 0,
      1, 0, 0, 0, 0, 0, 0, 0,
      0, 241, 83, 101, 0, 0, 0, 0]"

definition example_two_sol_bytes :: Buffer where
  "example_two_sol_bytes =
     [225, 38, 79, 147, 116, 142, 147, 57,
      1, 0, 0, 0, 0, 0, 0, 0,
      0, 148, 53, 119, 0, 0, 0, 0,
      0, 0, 0, 0]"

text \<open>
  Endpoints for an example of the network alert: the Sonic testnet answers the hash
  \<open>T\<close>, the Solana devnet the hash \<open>D\<close>, every other endpoint is down.
\<close>

definition example_genesisOf :: "string \<Rightarrow> js_error + string" where
  "example_genesisOf url =
     (if url = ''https://api.testnet.sonic.game'' then Inr ''T''
      else if url = ''https://api.devnet.solana.com'' then Inr ''D''
      else Inl (Rejected ''down''))"

section \<open>Properties of the buffer primitives\<close>

lemma length_le_bytes [simp]: "length (le_bytes k v) = k"
  by (induction k arbitrary: v) auto

lemma le_nat_le_bytes: "le_nat (le_bytes k v) = v mod 256 ^ k"
proof (induction k arbitrary: v)
  case 0
  then show ?case by simp
next
  case (Suc k)
  have "unat (of_nat (v mod 256) :: byte) = v mod 256"
    by (simp add: unat_of_nat)
  then show ?case
    using Suc by (simp add: mod_mult2_eq)
qed

lemma unat_byte_less: "unat (b :: byte) < 256"
  using unsigned_less [of b, where ?'a = nat] by simp

lemma le_nat_bound: "le_nat bs < 256 ^ length bs"
proof (induction bs)
  case Nil
  then show ?case by simp
next
  case (Cons b bs)
  with unat_byte_less [of b] show ?case by simp
qed

lemma le_bytes_le_nat: "le_bytes (length bs) (le_nat bs) = bs"
proof (induction bs)
  case Nil
  then show ?case by simp
next
  case (Cons b bs)
  have "(unat b + 256 * le_nat bs) mod 256 = unat b"
    using unat_byte_less [of b] by simp
  moreover have "(unat b + 256 * le_nat bs) div 256 = le_nat bs"
    using unat_byte_less [of b] by simp
  ultimately show ?case using Cons by simp
qed

lemma le_bytes_numeral:
  "le_bytes (numeral k) v = of_nat (v mod 256) # le_bytes (pred_numeral k) (v div 256)"
  by (simp add: numeral_eq_Suc [of k])

lemma be_bytes_be_nat: "be_bytes (length bs) (be_nat bs) = bs"
  using le_bytes_le_nat [of "rev bs"] by (simp add: be_bytes_def be_nat_def)

lemma new_PublicKey_slice:
  "new_PublicKey (slice buf 8 40) = Inr (PublicKey (be_nat (slice buf 8 40)))"
proof -
  have "length (slice buf 8 40) \<le> 32"
    by (simp add: slice_def)
  then have "(256::nat) ^ length (slice buf 8 40) \<le> 256 ^ 32"
    by (intro power_increasing) simp_all
  moreover have "be_nat (slice buf 8 40) < 256 ^ length (slice buf 8 40)"
    using le_nat_bound [of "rev (slice buf 8 40)"] by (simp add: be_nat_def)
  ultimately have "be_nat (slice buf 8 40) < 2 ^ 256"
    by simp
  then show ?thesis
    by (simp add: new_PublicKey_def)
qed

lemma Number_of_bigint_small: "n < 2 ^ 53 \<Longrightarrow> Number_of_bigint n = n"
  by (simp add: Number_of_bigint_def)

section \<open>Sequencing requests\<close>

lemma io_bind_of_Inr: "io_bind (io_of (Inr x)) f = f x"
  by (simp add: io_bind_def io_of_def split: prod.splits)

lemma io_bind_of_Inl: "io_bind (io_of (Inl e)) f = ([], Inl e)"
  by (simp add: io_bind_def io_of_def)

lemma io_bind_await_Inr: "io_bind (io_await ev (Inr x)) f = (ev # fst (f x), snd (f x))"
  by (simp add: io_bind_def io_await_def split: prod.splits)

lemma io_bind_await_Inl: "io_bind (io_await ev (Inl e)) f = ([ev], Inl e)"
  by (simp add: io_bind_def io_await_def)

lemmas io_simps = io_bind_of_Inr io_bind_of_Inl io_bind_await_Inr io_bind_await_Inl
  io_throw_def io_return_def

section \<open>What a run that reaches the signature has done\<close>

lemma handlePurchase_try_SignD:
  assumes "SignTransaction tx \<in> set (fst (handlePurchase_try page walletKey itemId'))"
  shows "\<exists>pid shopPDA itemPDA historyPDA shopData admin itemData p b acc blockhash.
      programPubkey page = Inr pid \<and>
      getShopPDA (findProgramAddressSync page) pid = Inr shopPDA \<and>
      getItemPDA (findProgramAddressSync page) pid itemId' = Inr itemPDA \<and>
      getHistoryPDA (findProgramAddressSync page) pid walletKey = Inr historyPDA \<and>
      getAccountInfo (connection page) shopPDA = Inr (Some shopData) \<and>
      new_PublicKey (slice shopData 8 40) = Inr admin \<and>
      getAccountInfo (connection page) itemPDA = Inr (Some itemData) \<and>
      readBigUInt64LE itemData 16 = Inr p \<and>
      getBalance (connection page) walletKey = Inr b \<and>
      \<not> b < Number_of_bigint p \<and>
      getAccountInfo (connection page) historyPDA = Inr acc \<and>
      getLatestBlockhash (connection page) = Inr blockhash \<and>
      tx = (handlePurchase_transaction walletKey pid shopPDA itemPDA historyPDA admin (acc \<noteq> None))
             \<lparr>recentBlockhash := Some blockhash, feePayer := Some walletKey\<rparr>"
  using assms
  unfolding handlePurchase_try_def io_bind_def io_of_def io_await_def io_throw_def Let_def
  by (auto split: sum.splits option.splits if_splits prod.splits simp: checkPurchaseHistory_def)

lemma handlePurchase_SignD:
  assumes "SignTransaction tx \<in> set (fst (handlePurchase page itemId'))"
  shows "\<exists>walletKey. publicKey (wallet page) = Some walletKey \<and> connected (wallet page) \<and>
      SignTransaction tx \<in> set (fst (handlePurchase_try page walletKey itemId'))"
  using assms unfolding handlePurchase_def
  by (auto split: sum.splits option.splits if_splits prod.splits)

lemma purchaseItem_SendD:
  assumes "SendAndConfirmTransaction tx \<in> set (fst (purchaseItem derive script itemId'))"
  shows "\<exists>shopPDA itemPDA historyPDA itemData acc i p u b.
      getShopPDA derive (script_programId script) = Inr shopPDA \<and>
      getItemPDA derive (script_programId script) itemId' = Inr itemPDA \<and>
      getHistoryPDA derive (script_programId script) (wallet_publicKey script) = Inr historyPDA \<and>
      getAccountInfo (script_connection script) itemPDA = Inr (Some itemData) \<and>
      getAccountInfo (script_connection script) historyPDA = Inr acc \<and>
      coder_decode_Item script itemData = Inr (i, p, u) \<and>
      getBalance (script_connection script) (wallet_publicKey script) = Inr b \<and>
      \<not> b < Number_of_bigint p \<and>
      tx = purchaseItem_transaction script shopPDA itemPDA historyPDA (acc \<noteq> None)"
  using assms
  unfolding purchaseItem_def io_bind_def io_of_def io_await_def io_throw_def Let_def
  by (auto split: sum.splits option.splits if_splits prod.splits
      simp: checkPurchaseHistoryForWallet_requests_def)


lemma handlePurchase_try_SignE:
  assumes "SignTransaction tx \<in> set (fst (handlePurchase_try page walletKey itemId'))"
  obtains pid shopPDA itemPDA historyPDA shopData admin itemData p b acc blockhash where
      "programPubkey page = Inr pid"
      "getShopPDA (findProgramAddressSync page) pid = Inr shopPDA"
      "getItemPDA (findProgramAddressSync page) pid itemId' = Inr itemPDA"
      "getHistoryPDA (findProgramAddressSync page) pid walletKey = Inr historyPDA"
      "getAccountInfo (connection page) shopPDA = Inr (Some shopData)"
      "new_PublicKey (slice shopData 8 40) = Inr admin"
      "getAccountInfo (connection page) itemPDA = Inr (Some itemData)"
      "readBigUInt64LE itemData 16 = Inr p"
      "getBalance (connection page) walletKey = Inr b"
      "\<not> b < Number_of_bigint p"
      "getAccountInfo (connection page) historyPDA = Inr acc"
      "getLatestBlockhash (connection page) = Inr blockhash"
      "tx = (handlePurchase_transaction walletKey pid shopPDA itemPDA historyPDA admin (acc \<noteq> None))
             \<lparr>recentBlockhash := Some blockhash, feePayer := Some walletKey\<rparr>"
  using handlePurchase_try_SignD [OF assms] by (elim exE conjE) (rule that)

lemma purchaseItem_SendE:
  assumes "SendAndConfirmTransaction tx \<in> set (fst (purchaseItem derive script itemId'))"
  obtains shopPDA itemPDA historyPDA itemData acc i p u b where
      "getShopPDA derive (script_programId script) = Inr shopPDA"
      "getItemPDA derive (script_programId script) itemId' = Inr itemPDA"
      "getHistoryPDA derive (script_programId script) (wallet_publicKey script) = Inr historyPDA"
      "getAccountInfo (script_connection script) itemPDA = Inr (Some itemData)"
      "getAccountInfo (script_connection script) historyPDA = Inr acc"
      "coder_decode_Item script itemData = Inr (i, p, u)"
      "getBalance (script_connection script) (wallet_publicKey script) = Inr b"
      "\<not> b < Number_of_bigint p"
      "tx = purchaseItem_transaction script shopPDA itemPDA historyPDA (acc \<noteq> None)"
  using purchaseItem_SendD [OF assms] by (elim exE conjE) (rule that)

lemma handlePurchase_SignE:
  assumes "SignTransaction tx \<in> set (fst (handlePurchase page itemId'))"
  obtains walletKey where "publicKey (wallet page) = Some walletKey"
    "connected (wallet page)"
    "SignTransaction tx \<in> set (fst (handlePurchase_try page walletKey itemId'))"
  using handlePurchase_SignD [OF assms] by (elim exE conjE) (rule that)

section \<open>The example run, evaluated\<close>

lemmas buffer_defs = Buffer_from_def toBuffer_def be_bytes_def be_nat_def Buffer_alloc_def
  writeBigUInt64LE_def writeUInt32LE_def new_PublicKey_def slice_def readBigUInt64LE_def
  readUInt32LE_def readBigInt64LE_def Buffer_from_array_def le_bytes_numeral

lemma parse_purchases_1:
  "parse_purchases data' offset (Suc 0) =
     (case readBigUInt64LE data' offset of
        Inl e \<Rightarrow> Inl e
      | Inr itemId' \<Rightarrow>
          (case readBigInt64LE data' (offset + 8) of
             Inl e \<Rightarrow> Inl e
           | Inr timestamp' \<Rightarrow>
               Inr [\<lparr>item_id = Number_of_bigint itemId',
                     timestamp = of_int (Number_of_signed_bigint timestamp')\<rparr>]))"
  by (simp split: sum.splits)

lemma example_shop: "getShopPDA example_derive (PublicKey 9) = Inr (PublicKey 4)"
  by (simp add: example_derive_def getShopPDA_def buffer_defs)

lemma example_item: "getItemPDA example_derive (PublicKey 9) (Suc 0) = Inr (PublicKey 12)"
  by (simp add: example_derive_def getItemPDA_def buffer_defs)

lemma example_history: "getHistoryPDA example_derive (PublicKey 9) (PublicKey 5) = Inr (PublicKey 39)"
  by (simp add: example_derive_def getHistoryPDA_def buffer_defs)

lemma example_admin: "new_PublicKey (slice example_shop_data 8 40) = Inr (PublicKey 7)"
  by (simp add: example_shop_data_def buffer_defs)

lemma example_price: "readBigUInt64LE example_item_data 16 = Inr 1000000000"
  by (simp add: example_item_data_def buffer_defs)

lemma example_number: "Number_of_bigint 1000000000 = 1000000000"
  by (simp add: Number_of_bigint_def)

lemma example_parse:
  "checkPurchaseHistory_parse (PublicKey 5) example_history_data
     = Inr [\<lparr>item_id = 1, timestamp = 1700000000\<rparr>]"
  by (simp add: checkPurchaseHistory_parse_def example_history_data_def buffer_defs equals_def
      parse_purchases_1 Number_of_bigint_def Number_of_signed_bigint_def)

lemma example_refresh:
  "checkPurchaseHistory ((example_page i h b)\<lparr>connection := connection_after (example_page i h b)\<rparr>)
     = ([GetAccountInfo (PublicKey 39)], Some [\<lparr>item_id = 1, timestamp = 1700000000\<rparr>])"
  by (simp add: checkPurchaseHistory_def example_page_def example_wallet_def
      example_connection_def example_accounts_def example_history example_parse)

lemma example_built:
  "(handlePurchase_transaction (PublicKey 5) (PublicKey 9) (PublicKey 4) (PublicKey 12)
      (PublicKey 39) (PublicKey 7) e)\<lparr>recentBlockhash := Some ''blockhash'',
                                     feePayer := Some (PublicKey 5)\<rparr>
     = example_transaction e"
  by (simp add: handlePurchase_transaction_def example_transaction_def example_keys_def
      example_tag_def new_Transaction_def add_def firstPurchase_def subsequentPurchase_def
      Buffer_from_array_def SystemProgram_programId_def)

lemma example_serialized: "example_serialize (example_transaction e) = Inr (example_tag e)"
  by (simp add: example_serialize_def example_transaction_def)

lemma example_page_fields:
  "findProgramAddressSync (example_page i h b) = example_derive"
  "programPubkey (example_page i h b) = Inr (PublicKey 9)"
  "wallet (example_page i h b) = example_wallet"
  "connection (example_page i h b) = example_connection (example_accounts i h) b"
  "serialize (example_page i h b) = example_serialize"
  by (simp_all add: example_page_def)

lemma example_handlePurchase:
  "handlePurchase (example_page (Some example_item_data) h 2000000000) 1 =
     ([GetAccountInfo (PublicKey 4), GetAccountInfo (PublicKey 12), GetBalance (PublicKey 5),
       GetAccountInfo (PublicKey 39), GetLatestBlockhash,
       SignTransaction (example_transaction (h \<noteq> None)),
       SendRawTransaction (example_tag (h \<noteq> None)), ConfirmTransaction ''signature'',
       GetAccountInfo (PublicKey 39)],
      PurchaseSuccessful ''signature'' (Some [\<lparr>item_id = 1, timestamp = 1700000000\<rparr>]))"
  unfolding handlePurchase_def handlePurchase_try_def example_page_fields example_refresh
  by (simp add: io_bind_def io_of_def io_await_def io_throw_def example_shop example_item
      example_history example_admin example_price example_number example_built
      example_serialized example_wallet_def example_connection_def example_accounts_def
      Let_def)

lemma example_script_built:
  "purchaseItem_transaction (example_script a b) (PublicKey 4) (PublicKey 12) (PublicKey 39) e
     = example_script_transaction e"
  by (simp add: purchaseItem_transaction_def example_script_transaction_def example_script_def
      purchaseItem_keys_def example_keys_def example_tag_def new_Transaction_def add_def
      SystemProgram_programId_def)

lemma example_script_fields:
  "script_programId (example_script a b) = PublicKey 9"
  "script_connection (example_script a b) = example_connection a b"
  "wallet_publicKey (example_script a b) = PublicKey 5"
  "adminPublicKey (example_script a b) = PublicKey 7"
  "coder_decode_Item (example_script a b) = (\<lambda>buf. Inr (1, 1000000000, ''image:https://x/y.png''))"
  "sendAndConfirmTransaction (example_script a b) = (\<lambda>tx. Inr ''signature'')"
  by (simp_all add: example_script_def)

lemma example_purchaseItem:
  "purchaseItem example_derive
     (example_script (example_accounts (Some example_item_data) h) 2000000000) 1 =
     ([GetAccountInfo (PublicKey 12), GetAccountInfo (PublicKey 39), GetBalance (PublicKey 5),
       SendAndConfirmTransaction (example_script_transaction (h \<noteq> None)),
       GetAccountInfo (PublicKey 39)],
      Inr ''signature'')"
  unfolding purchaseItem_def checkPurchaseHistoryForWallet_requests_def example_script_fields
    example_script_built
  by (simp add: io_bind_def io_of_def io_await_def io_throw_def example_shop example_item
      example_history example_number example_script_built example_connection_def
      example_accounts_def Let_def)


lemma example_add_item_data:
  "add_item_data (Suc 0) 1000000000 ''image:https://x/y.png'' =
     Inr example_add_item_bytes"
  by (simp add: add_item_data_def add_item_discriminator_def example_add_item_bytes_def
      buffer_defs)

lemma example_add_item_built:
  "add_item_transaction (example_script a b) (PublicKey 4) (PublicKey 12)
     example_add_item_bytes = example_add_item_transaction"
  by (simp add: add_item_transaction_def example_add_item_transaction_def example_script_def
      add_item_keys_def new_Transaction_def add_def SystemProgram_programId_def)

lemma example_addItemWithMetadata:
  "addItemWithMetadata example_derive (example_script (example_accounts None None) 0)
     example_metadata =
     ([GetAccountInfo (PublicKey 12), SendAndConfirmTransaction example_add_item_transaction],
      Inr (Some (PublicKey 12)))"
  unfolding addItemWithMetadata_def example_script_fields example_metadata_def
  by (simp add: io_bind_def io_of_def io_await_def io_throw_def io_return_def falsy_def
      example_shop example_item example_add_item_data example_add_item_built
      example_connection_def example_accounts_def Let_def)

lemma example_addItem:
  "addItem example_derive (example_script (example_accounts None None) 0)
     1 1000000000 ''image:https://x/y.png'' =
     ([SendAndConfirmTransaction example_add_item_transaction], Inr (PublicKey 12))"
  unfolding addItem_def example_script_fields
  by (simp add: io_bind_def io_of_def io_await_def io_throw_def io_return_def
      example_shop example_item example_add_item_data example_add_item_built Let_def)

lemma example_initializeShop:
  "initializeShop example_derive (example_script (\<lambda>n. None) 0) =
     ([GetAccountInfo (PublicKey 4), SendAndConfirmTransaction example_initialize_transaction],
      Inr (PublicKey 4))"
  unfolding initializeShop_def example_script_fields
  by (simp add: io_bind_def io_of_def io_await_def io_throw_def io_return_def
      example_shop initializeShop_transaction_def example_initialize_transaction_def
      example_script_def example_connection_def new_Transaction_def add_def
      SystemProgram_programId_def initialize_shop_discriminator_def Buffer_from_array_def Let_def)

lemma handlePurchase_try_requests:
  assumes s: "SignTransaction tx \<in> set (fst (handlePurchase_try page walletKey itemId'))"
    and "programPubkey page = Inr pid"
    and "getHistoryPDA (findProgramAddressSync page) pid walletKey = Inr historyPDA"
  shows "GetAccountInfo historyPDA \<in> set (fst (handlePurchase_try page walletKey itemId'))"
proof -
  from s obtain pid' shopPDA itemPDA historyPDA' shopData admin itemData p b acc blockhash
    where run: "programPubkey page = Inr pid'"
      "getShopPDA (findProgramAddressSync page) pid' = Inr shopPDA"
      "getItemPDA (findProgramAddressSync page) pid' itemId' = Inr itemPDA"
      "getHistoryPDA (findProgramAddressSync page) pid' walletKey = Inr historyPDA'"
      "getAccountInfo (connection page) shopPDA = Inr (Some shopData)"
      "new_PublicKey (slice shopData 8 40) = Inr admin"
      "getAccountInfo (connection page) itemPDA = Inr (Some itemData)"
      "readBigUInt64LE itemData 16 = Inr p"
      "getBalance (connection page) walletKey = Inr b"
      "\<not> b < Number_of_bigint p"
      "getAccountInfo (connection page) historyPDA' = Inr acc"
      "getLatestBlockhash (connection page) = Inr blockhash"
      "tx = (handlePurchase_transaction walletKey pid' shopPDA itemPDA historyPDA' admin
               (acc \<noteq> None))\<lparr>recentBlockhash := Some blockhash, feePayer := Some walletKey\<rparr>"
    by (rule handlePurchase_try_SignE)
  from run(1,4) assms(2,3) have "historyPDA' = historyPDA"
    by simp
  with run show ?thesis
    unfolding handlePurchase_try_def by (simp add: io_simps Let_def)
qed

lemma handlePurchase_requestsI:
  assumes "ev \<in> set (fst (handlePurchase_try page walletKey itemId'))"
    and "publicKey (wallet page) = Some walletKey" and "connected (wallet page)"
  shows "ev \<in> set (fst (handlePurchase page itemId'))"
  using assms unfolding handlePurchase_def
  by (auto split: sum.splits option.splits if_splits prod.splits)

lemma purchaseItem_requests:
  assumes s: "SendAndConfirmTransaction tx \<in> set (fst (purchaseItem derive script itemId'))"
    and "getHistoryPDA derive (script_programId script) (wallet_publicKey script) = Inr historyPDA"
  shows "GetAccountInfo historyPDA \<in> set (fst (purchaseItem derive script itemId'))"
proof -
  from s obtain shopPDA itemPDA historyPDA' itemData acc i p u b where
    run: "getShopPDA derive (script_programId script) = Inr shopPDA"
      "getItemPDA derive (script_programId script) itemId' = Inr itemPDA"
      "getHistoryPDA derive (script_programId script) (wallet_publicKey script) = Inr historyPDA'"
      "getAccountInfo (script_connection script) itemPDA = Inr (Some itemData)"
      "getAccountInfo (script_connection script) historyPDA' = Inr acc"
      "coder_decode_Item script itemData = Inr (i, p, u)"
      "getBalance (script_connection script) (wallet_publicKey script) = Inr b"
      "\<not> b < Number_of_bigint p"
      "tx = purchaseItem_transaction script shopPDA itemPDA historyPDA' (acc \<noteq> None)"
    by (rule purchaseItem_SendE)
  from run(3) assms(2) have "historyPDA' = historyPDA"
    by simp
  with run show ?thesis
    unfolding purchaseItem_def by (simp add: io_simps Let_def)
qed

lemma addItemWithMetadata_SendD:
  assumes "SendAndConfirmTransaction tx \<in> set (fst (addItemWithMetadata derive script metadata))"
  shows "\<exists>shopPDA itemPDA data'. tx = add_item_transaction script shopPDA itemPDA data'"
  using assms
  unfolding addItemWithMetadata_def io_bind_def io_of_def io_await_def io_throw_def
    io_return_def Let_def
  by (auto split: sum.splits option.splits if_splits prod.splits)

lemma addItem_SendD:
  assumes "SendAndConfirmTransaction tx \<in> set (fst (addItem derive script id' price' uri))"
  shows "\<exists>shopPDA itemPDA data'. tx = add_item_transaction script shopPDA itemPDA data'"
  using assms
  unfolding addItem_def io_bind_def io_of_def io_await_def io_throw_def io_return_def Let_def
  by (auto split: sum.splits option.splits if_splits prod.splits)

lemma initializeShop_SendD:
  assumes "SendAndConfirmTransaction tx \<in> set (fst (initializeShop derive script))"
  shows "\<exists>shopPDA. tx = initializeShop_transaction script shopPDA"
  using assms
  unfolding initializeShop_def io_bind_def io_of_def io_await_def io_throw_def io_return_def
    Let_def
  by (auto split: sum.splits option.splits if_splits prod.splits)

section \<open>The purchase instruction\<close>

text \<open>
  C6. Every purchase instruction that is built, by the shop page (\<open>handlePurchase\<close>, when
  it asks the wallet for a signature) or by the purchase script (\<open>purchaseItem\<close>, when it
  sends the transaction), for a first purchase as for a subsequent one, lists exactly
  six accounts in this order: the buyer (signer, writable), the shop address
  (read-only), the item address (read-only), the admin (writable; on the page the key
  in bytes 8..40 of the shop account, in the script the admin key it loaded), the
  buyer's history address (writable) and the system program (read-only).
\<close>

theorem purchase_account_references:
  "(SignTransaction tx \<in> set (fst (handlePurchase page itemId')) \<longrightarrow>
      (\<exists>walletKey pid shopPDA itemPDA historyPDA shopData tag.
         publicKey (wallet page) = Some walletKey \<and>
         programPubkey page = Inr pid \<and>
         getShopPDA (findProgramAddressSync page) pid = Inr shopPDA \<and>
         getItemPDA (findProgramAddressSync page) pid itemId' = Inr itemPDA \<and>
         getHistoryPDA (findProgramAddressSync page) pid walletKey = Inr historyPDA \<and>
         getAccountInfo (connection page) shopPDA = Inr (Some shopData) \<and>
         instructions tx =
           [SetComputeUnitLimit 1000000,
            ProgramInstruction
              \<lparr>keys =
                 [\<lparr>pubkey = walletKey, isSigner = True, isWritable = True\<rparr>,
                  \<lparr>pubkey = shopPDA, isSigner = False, isWritable = False\<rparr>,
                  \<lparr>pubkey = itemPDA, isSigner = False, isWritable = False\<rparr>,
                  \<lparr>pubkey = PublicKey (be_nat (slice shopData 8 40)),
                   isSigner = False, isWritable = True\<rparr>,
                  \<lparr>pubkey = historyPDA, isSigner = False, isWritable = True\<rparr>,
                  \<lparr>pubkey = SystemProgram_programId, isSigner = False, isWritable = False\<rparr>],
               programId = pid,
               data = tag\<rparr>])) \<and>
   (SendAndConfirmTransaction tx' \<in> set (fst (purchaseItem derive script itemId')) \<longrightarrow>
      (\<exists>shopPDA itemPDA historyPDA tag.
         getShopPDA derive (script_programId script) = Inr shopPDA \<and>
         getItemPDA derive (script_programId script) itemId' = Inr itemPDA \<and>
         getHistoryPDA derive (script_programId script) (wallet_publicKey script)
           = Inr historyPDA \<and>
         instructions tx' =
           [SetComputeUnitLimit 1000000,
            ProgramInstruction
              \<lparr>keys =
                 [\<lparr>pubkey = wallet_publicKey script, isSigner = True, isWritable = True\<rparr>,
                  \<lparr>pubkey = shopPDA, isSigner = False, isWritable = False\<rparr>,
                  \<lparr>pubkey = itemPDA, isSigner = False, isWritable = False\<rparr>,
                  \<lparr>pubkey = adminPublicKey script, isSigner = False, isWritable = True\<rparr>,
                  \<lparr>pubkey = historyPDA, isSigner = False, isWritable = True\<rparr>,
                  \<lparr>pubkey = SystemProgram_programId, isSigner = False, isWritable = False\<rparr>],
               programId = script_programId script,
               data = tag\<rparr>]))"
proof (intro conjI impI)
  assume "SignTransaction tx \<in> set (fst (handlePurchase page itemId'))"
  then obtain walletKey where w: "publicKey (wallet page) = Some walletKey"
    and "SignTransaction tx \<in> set (fst (handlePurchase_try page walletKey itemId'))"
    by (rule handlePurchase_SignE)
  from this(2) obtain pid shopPDA itemPDA historyPDA shopData admin itemData p b acc blockhash
    where run: "programPubkey page = Inr pid"
      "getShopPDA (findProgramAddressSync page) pid = Inr shopPDA"
      "getItemPDA (findProgramAddressSync page) pid itemId' = Inr itemPDA"
      "getHistoryPDA (findProgramAddressSync page) pid walletKey = Inr historyPDA"
      "getAccountInfo (connection page) shopPDA = Inr (Some shopData)"
      "new_PublicKey (slice shopData 8 40) = Inr admin"
      "getAccountInfo (connection page) itemPDA = Inr (Some itemData)"
      "readBigUInt64LE itemData 16 = Inr p"
      "getBalance (connection page) walletKey = Inr b"
      "\<not> b < Number_of_bigint p"
      "getAccountInfo (connection page) historyPDA = Inr acc"
      "getLatestBlockhash (connection page) = Inr blockhash"
    and tx: "tx = (handlePurchase_transaction walletKey pid shopPDA itemPDA historyPDA admin
                    (acc \<noteq> None))\<lparr>recentBlockhash := Some blockhash,
                                    feePayer := Some walletKey\<rparr>"
    by (rule handlePurchase_try_SignE)
  have admin: "admin = PublicKey (be_nat (slice shopData 8 40))"
    using run(6) by (simp add: new_PublicKey_slice)
  show "\<exists>walletKey pid shopPDA itemPDA historyPDA shopData tag.
         publicKey (wallet page) = Some walletKey \<and>
         programPubkey page = Inr pid \<and>
         getShopPDA (findProgramAddressSync page) pid = Inr shopPDA \<and>
         getItemPDA (findProgramAddressSync page) pid itemId' = Inr itemPDA \<and>
         getHistoryPDA (findProgramAddressSync page) pid walletKey = Inr historyPDA \<and>
         getAccountInfo (connection page) shopPDA = Inr (Some shopData) \<and>
         instructions tx =
           [SetComputeUnitLimit 1000000,
            ProgramInstruction
              \<lparr>keys =
                 [\<lparr>pubkey = walletKey, isSigner = True, isWritable = True\<rparr>,
                  \<lparr>pubkey = shopPDA, isSigner = False, isWritable = False\<rparr>,
                  \<lparr>pubkey = itemPDA, isSigner = False, isWritable = False\<rparr>,
                  \<lparr>pubkey = PublicKey (be_nat (slice shopData 8 40)),
                   isSigner = False, isWritable = True\<rparr>,
                  \<lparr>pubkey = historyPDA, isSigner = False, isWritable = True\<rparr>,
                  \<lparr>pubkey = SystemProgram_programId, isSigner = False, isWritable = False\<rparr>],
               programId = pid,
               data = tag\<rparr>]"
    using w run(1-5) unfolding tx admin
    by (simp add: handlePurchase_transaction_def new_Transaction_def add_def)
next
  assume "SendAndConfirmTransaction tx' \<in> set (fst (purchaseItem derive script itemId'))"
  then obtain shopPDA itemPDA historyPDA itemData acc i p u b where
    run: "getShopPDA derive (script_programId script) = Inr shopPDA"
      "getItemPDA derive (script_programId script) itemId' = Inr itemPDA"
      "getHistoryPDA derive (script_programId script) (wallet_publicKey script) = Inr historyPDA"
      "getAccountInfo (script_connection script) itemPDA = Inr (Some itemData)"
      "getAccountInfo (script_connection script) historyPDA = Inr acc"
      "coder_decode_Item script itemData = Inr (i, p, u)"
      "getBalance (script_connection script) (wallet_publicKey script) = Inr b"
      "\<not> b < Number_of_bigint p"
    and tx: "tx' = purchaseItem_transaction script shopPDA itemPDA historyPDA (acc \<noteq> None)"
    by (rule purchaseItem_SendE)
  show "\<exists>shopPDA itemPDA historyPDA tag.
         getShopPDA derive (script_programId script) = Inr shopPDA \<and>
         getItemPDA derive (script_programId script) itemId' = Inr itemPDA \<and>
         getHistoryPDA derive (script_programId script) (wallet_publicKey script)
           = Inr historyPDA \<and>
         instructions tx' =
           [SetComputeUnitLimit 1000000,
            ProgramInstruction
              \<lparr>keys =
                 [\<lparr>pubkey = wallet_publicKey script, isSigner = True, isWritable = True\<rparr>,
                  \<lparr>pubkey = shopPDA, isSigner = False, isWritable = False\<rparr>,
                  \<lparr>pubkey = itemPDA, isSigner = False, isWritable = False\<rparr>,
                  \<lparr>pubkey = adminPublicKey script, isSigner = False, isWritable = True\<rparr>,
                  \<lparr>pubkey = historyPDA, isSigner = False, isWritable = True\<rparr>,
                  \<lparr>pubkey = SystemProgram_programId, isSigner = False, isWritable = False\<rparr>],
               programId = script_programId script,
               data = tag\<rparr>]"
    using run(1-3) unfolding tx
    by (simp add: purchaseItem_transaction_def purchaseItem_keys_def new_Transaction_def
        add_def Let_def)
qed

theorem purchase_account_references_witness:
  "SignTransaction (example_transaction False)
     \<in> set (fst (handlePurchase (example_page (Some example_item_data) None 2000000000) 1)) \<and>
   SendAndConfirmTransaction (example_script_transaction True)
     \<in> set (fst (purchaseItem example_derive
          (example_script (example_accounts (Some example_item_data) (Some example_history_data))
             2000000000) 1)) \<and>
   (\<exists>tag. instructions (example_transaction False) =
      [SetComputeUnitLimit 1000000,
       ProgramInstruction \<lparr>keys = example_keys, programId = PublicKey 9, data = tag\<rparr>]) \<and>
   (\<exists>tag. instructions (example_script_transaction True) =
      [SetComputeUnitLimit 1000000,
       ProgramInstruction \<lparr>keys = example_keys, programId = PublicKey 9, data = tag\<rparr>])"
proof -
  have h1: "SignTransaction (example_transaction False)
     \<in> set (fst (handlePurchase (example_page (Some example_item_data) None 2000000000) 1))"
    unfolding example_handlePurchase by simp
  have h2: "SendAndConfirmTransaction (example_script_transaction True)
     \<in> set (fst (purchaseItem example_derive
          (example_script (example_accounts (Some example_item_data) (Some example_history_data))
             2000000000) 1))"
    unfolding example_purchaseItem by simp
  note c = purchase_account_references [of "example_transaction False"
        "example_page (Some example_item_data) None 2000000000" 1
        "example_script_transaction True" example_derive
        "example_script (example_accounts (Some example_item_data) (Some example_history_data))
           2000000000"]
  note c1 = c [THEN conjunct1, THEN mp, OF h1]
  note c2 = c [THEN conjunct2, THEN mp, OF h2]
  from h1 h2 c1 c2 show ?thesis
    by (simp add: example_transaction_def example_script_transaction_def)
qed

text \<open>
  C1. A purchase on the shop page reads the buyer's history account once before it
  builds the instruction, and uses nothing of the answer but whether an account
  exists: the instruction data is the 8-byte tag of \<open>first_purchase\<close> when there is
  none and the tag of \<open>subsequent_purchase\<close> when there is one. The purchase script
  chooses between the instruction names \<open>firstPurchase\<close> and \<open>subsequentPurchase\<close>
  in the same way, and its coder turns the name into the tag.
\<close>

theorem purchase_opcode_selection:
  "(SignTransaction tx \<in> set (fst (handlePurchase page itemId')) \<longrightarrow>
      (\<exists>walletKey pid historyPDA historyAccount accounts.
         publicKey (wallet page) = Some walletKey \<and>
         programPubkey page = Inr pid \<and>
         getHistoryPDA (findProgramAddressSync page) pid walletKey = Inr historyPDA \<and>
         GetAccountInfo historyPDA \<in> set (fst (handlePurchase page itemId')) \<and>
         getAccountInfo (connection page) historyPDA = Inr historyAccount \<and>
         instructions tx =
           [SetComputeUnitLimit 1000000,
            ProgramInstruction
              \<lparr>keys = accounts, programId = pid,
               data = (if historyAccount = None
                       then [109, 212, 45, 217, 228, 42, 205, 63]
                       else [223, 75, 242, 206, 210, 168, 187, 166])\<rparr>])) \<and>
   (SendAndConfirmTransaction tx' \<in> set (fst (purchaseItem derive script itemId')) \<longrightarrow>
      (\<exists>historyPDA historyAccount accounts.
         getHistoryPDA derive (script_programId script) (wallet_publicKey script)
           = Inr historyPDA \<and>
         GetAccountInfo historyPDA \<in> set (fst (purchaseItem derive script itemId')) \<and>
         getAccountInfo (script_connection script) historyPDA = Inr historyAccount \<and>
         instructions tx' =
           [SetComputeUnitLimit 1000000,
            ProgramInstruction
              \<lparr>keys = accounts, programId = script_programId script,
               data = coder_instruction_encode script
                        (if historyAccount = None then ''firstPurchase''
                         else ''subsequentPurchase'')\<rparr>]))"
proof (intro conjI impI)
  assume s: "SignTransaction tx \<in> set (fst (handlePurchase page itemId'))"
  then obtain walletKey where w: "publicKey (wallet page) = Some walletKey"
    "connected (wallet page)"
    and s': "SignTransaction tx \<in> set (fst (handlePurchase_try page walletKey itemId'))"
    by (rule handlePurchase_SignE)
  from s' obtain pid shopPDA itemPDA historyPDA shopData admin itemData p b acc blockhash
    where run: "programPubkey page = Inr pid"
      "getShopPDA (findProgramAddressSync page) pid = Inr shopPDA"
      "getItemPDA (findProgramAddressSync page) pid itemId' = Inr itemPDA"
      "getHistoryPDA (findProgramAddressSync page) pid walletKey = Inr historyPDA"
      "getAccountInfo (connection page) shopPDA = Inr (Some shopData)"
      "new_PublicKey (slice shopData 8 40) = Inr admin"
      "getAccountInfo (connection page) itemPDA = Inr (Some itemData)"
      "readBigUInt64LE itemData 16 = Inr p"
      "getBalance (connection page) walletKey = Inr b"
      "\<not> b < Number_of_bigint p"
      "getAccountInfo (connection page) historyPDA = Inr acc"
      "getLatestBlockhash (connection page) = Inr blockhash"
    and tx: "tx = (handlePurchase_transaction walletKey pid shopPDA itemPDA historyPDA admin
                    (acc \<noteq> None))\<lparr>recentBlockhash := Some blockhash,
                                    feePayer := Some walletKey\<rparr>"
    by (rule handlePurchase_try_SignE)
  have probe: "GetAccountInfo historyPDA \<in> set (fst (handlePurchase page itemId'))"
    using handlePurchase_try_requests [OF s' run(1) run(4)] w
    by (rule handlePurchase_requestsI)
  have "instructions tx =
           [SetComputeUnitLimit 1000000,
            ProgramInstruction
              \<lparr>keys = keys_of, programId = pid,
               data = (if acc = None
                       then [109, 212, 45, 217, 228, 42, 205, 63]
                       else [223, 75, 242, 206, 210, 168, 187, 166])\<rparr>]"
    if "keys_of =
         [\<lparr>pubkey = walletKey, isSigner = True, isWritable = True\<rparr>,
          \<lparr>pubkey = shopPDA, isSigner = False, isWritable = False\<rparr>,
          \<lparr>pubkey = itemPDA, isSigner = False, isWritable = False\<rparr>,
          \<lparr>pubkey = admin, isSigner = False, isWritable = True\<rparr>,
          \<lparr>pubkey = historyPDA, isSigner = False, isWritable = True\<rparr>,
          \<lparr>pubkey = SystemProgram_programId, isSigner = False, isWritable = False\<rparr>]"
    for keys_of
    unfolding tx that
    by (simp add: handlePurchase_transaction_def new_Transaction_def add_def
        firstPurchase_def subsequentPurchase_def Buffer_from_array_def)
  with w(1) run(1) run(4) run(11) probe
  show "\<exists>walletKey pid historyPDA historyAccount accounts.
         publicKey (wallet page) = Some walletKey \<and>
         programPubkey page = Inr pid \<and>
         getHistoryPDA (findProgramAddressSync page) pid walletKey = Inr historyPDA \<and>
         GetAccountInfo historyPDA \<in> set (fst (handlePurchase page itemId')) \<and>
         getAccountInfo (connection page) historyPDA = Inr historyAccount \<and>
         instructions tx =
           [SetComputeUnitLimit 1000000,
            ProgramInstruction
              \<lparr>keys = accounts, programId = pid,
               data = (if historyAccount = None
                       then [109, 212, 45, 217, 228, 42, 205, 63]
                       else [223, 75, 242, 206, 210, 168, 187, 166])\<rparr>]"
    by blast
next
  assume s: "SendAndConfirmTransaction tx' \<in> set (fst (purchaseItem derive script itemId'))"
  then obtain shopPDA itemPDA historyPDA itemData acc i p u b where
    run: "getShopPDA derive (script_programId script) = Inr shopPDA"
      "getItemPDA derive (script_programId script) itemId' = Inr itemPDA"
      "getHistoryPDA derive (script_programId script) (wallet_publicKey script) = Inr historyPDA"
      "getAccountInfo (script_connection script) itemPDA = Inr (Some itemData)"
      "getAccountInfo (script_connection script) historyPDA = Inr acc"
      "coder_decode_Item script itemData = Inr (i, p, u)"
      "getBalance (script_connection script) (wallet_publicKey script) = Inr b"
      "\<not> b < Number_of_bigint p"
    and tx: "tx' = purchaseItem_transaction script shopPDA itemPDA historyPDA (acc \<noteq> None)"
    by (rule purchaseItem_SendE)
  have probe: "GetAccountInfo historyPDA \<in> set (fst (purchaseItem derive script itemId'))"
    using s run(3) by (rule purchaseItem_requests)
  have "instructions tx' =
           [SetComputeUnitLimit 1000000,
            ProgramInstruction
              \<lparr>keys = purchaseItem_keys (wallet_publicKey script) shopPDA itemPDA
                        (adminPublicKey script) historyPDA,
               programId = script_programId script,
               data = coder_instruction_encode script
                        (if acc = None then ''firstPurchase'' else ''subsequentPurchase'')\<rparr>]"
    unfolding tx
    by (simp add: purchaseItem_transaction_def new_Transaction_def add_def Let_def)
  with run(3) run(5) probe
  show "\<exists>historyPDA historyAccount accounts.
         getHistoryPDA derive (script_programId script) (wallet_publicKey script)
           = Inr historyPDA \<and>
         GetAccountInfo historyPDA \<in> set (fst (purchaseItem derive script itemId')) \<and>
         getAccountInfo (script_connection script) historyPDA = Inr historyAccount \<and>
         instructions tx' =
           [SetComputeUnitLimit 1000000,
            ProgramInstruction
              \<lparr>keys = accounts, programId = script_programId script,
               data = coder_instruction_encode script
                        (if historyAccount = None then ''firstPurchase''
                         else ''subsequentPurchase'')\<rparr>]"
    by blast
qed


theorem purchase_opcode_selection_witness:
  "SignTransaction (example_transaction False)
     \<in> set (fst (handlePurchase (example_page (Some example_item_data) None 2000000000) 1)) \<and>
   SendAndConfirmTransaction (example_script_transaction True)
     \<in> set (fst (purchaseItem example_derive
          (example_script (example_accounts (Some example_item_data) (Some example_history_data))
             2000000000) 1)) \<and>
   (\<exists>accounts. instructions (example_transaction False) =
      [SetComputeUnitLimit 1000000,
       ProgramInstruction \<lparr>keys = accounts, programId = PublicKey 9,
                           data = [109, 212, 45, 217, 228, 42, 205, 63]\<rparr>]) \<and>
   (\<exists>accounts. instructions (example_script_transaction True) =
      [SetComputeUnitLimit 1000000,
       ProgramInstruction \<lparr>keys = accounts, programId = PublicKey 9,
                           data = [223, 75, 242, 206, 210, 168, 187, 166]\<rparr>])"
proof -
  have h1: "SignTransaction (example_transaction False)
     \<in> set (fst (handlePurchase (example_page (Some example_item_data) None 2000000000) 1))"
    unfolding example_handlePurchase by simp
  have h2: "SendAndConfirmTransaction (example_script_transaction True)
     \<in> set (fst (purchaseItem example_derive
          (example_script (example_accounts (Some example_item_data) (Some example_history_data))
             2000000000) 1))"
    unfolding example_purchaseItem by simp
  note c = purchase_opcode_selection [of "example_transaction False"
        "example_page (Some example_item_data) None 2000000000" 1
        "example_script_transaction True" example_derive
        "example_script (example_accounts (Some example_item_data) (Some example_history_data))
           2000000000"]
  note c1 = c [THEN conjunct1, THEN mp, OF h1]
  note c2 = c [THEN conjunct2, THEN mp, OF h2]
  from h1 h2 c1 c2 show ?thesis
    by (simp add: example_transaction_def example_script_transaction_def example_tag_def)
qed

section \<open>The compute budget instruction\<close>

lemma add_item_transaction_instructions:
  "instructions (add_item_transaction script shopPDA itemPDA data') =
     [SetComputeUnitLimit 1000000,
      ProgramInstruction \<lparr>keys = add_item_keys (wallet_publicKey script) shopPDA itemPDA,
                          programId = script_programId script, data = data'\<rparr>]"
  by (simp add: add_item_transaction_def new_Transaction_def add_def)

text \<open>
  C7. Every transaction that carries an instruction of the shop program starts with the
  compute budget instruction (a limit of 1000000 units), followed by the program's
  instruction: the purchase of the shop page, the purchase of the script, and the
  \<open>add_item\<close> and \<open>initialize_shop\<close> transactions of the admin scripts.
\<close>

theorem compute_budget_precedes_instruction:
  "(SignTransaction tx \<in> set (fst (handlePurchase page itemId')) \<longrightarrow>
      (\<exists>main. instructions tx = [SetComputeUnitLimit 1000000, ProgramInstruction main] \<and>
         programPubkey page = Inr (programId main))) \<and>
   (SendAndConfirmTransaction txa \<in> set (fst (purchaseItem derive script itemId')) \<longrightarrow>
      (\<exists>main. instructions txa = [SetComputeUnitLimit 1000000, ProgramInstruction main] \<and>
         programId main = script_programId script)) \<and>
   (SendAndConfirmTransaction txb \<in> set (fst (addItemWithMetadata derive script metadata)) \<longrightarrow>
      (\<exists>main. instructions txb = [SetComputeUnitLimit 1000000, ProgramInstruction main] \<and>
         programId main = script_programId script)) \<and>
   (SendAndConfirmTransaction txc \<in> set (fst (addItem derive script id' price' uri)) \<longrightarrow>
      (\<exists>main. instructions txc = [SetComputeUnitLimit 1000000, ProgramInstruction main] \<and>
         programId main = script_programId script)) \<and>
   (SendAndConfirmTransaction txd \<in> set (fst (initializeShop derive script)) \<longrightarrow>
      (\<exists>main. instructions txd = [SetComputeUnitLimit 1000000, ProgramInstruction main] \<and>
         programId main = script_programId script))"
proof (intro conjI impI)
  assume "SignTransaction tx \<in> set (fst (handlePurchase page itemId'))"
  then obtain walletKey where
    "SignTransaction tx \<in> set (fst (handlePurchase_try page walletKey itemId'))"
    by (rule handlePurchase_SignE)
  then obtain pid shopPDA itemPDA historyPDA shopData admin itemData p b acc blockhash
    where run: "programPubkey page = Inr pid"
      "getShopPDA (findProgramAddressSync page) pid = Inr shopPDA"
      "getItemPDA (findProgramAddressSync page) pid itemId' = Inr itemPDA"
      "getHistoryPDA (findProgramAddressSync page) pid walletKey = Inr historyPDA"
      "getAccountInfo (connection page) shopPDA = Inr (Some shopData)"
      "new_PublicKey (slice shopData 8 40) = Inr admin"
      "getAccountInfo (connection page) itemPDA = Inr (Some itemData)"
      "readBigUInt64LE itemData 16 = Inr p"
      "getBalance (connection page) walletKey = Inr b"
      "\<not> b < Number_of_bigint p"
      "getAccountInfo (connection page) historyPDA = Inr acc"
      "getLatestBlockhash (connection page) = Inr blockhash"
    and tx: "tx = (handlePurchase_transaction walletKey pid shopPDA itemPDA historyPDA admin
                    (acc \<noteq> None))\<lparr>recentBlockhash := Some blockhash,
                                    feePayer := Some walletKey\<rparr>"
    by (rule handlePurchase_try_SignE)
  show "\<exists>main. instructions tx = [SetComputeUnitLimit 1000000, ProgramInstruction main] \<and>
         programPubkey page = Inr (programId main)"
    unfolding tx using run(1)
    by (simp add: handlePurchase_transaction_def new_Transaction_def add_def)
next
  assume "SendAndConfirmTransaction txa \<in> set (fst (purchaseItem derive script itemId'))"
  then obtain shopPDA itemPDA historyPDA itemData acc i p u b where
    run: "getShopPDA derive (script_programId script) = Inr shopPDA"
      "getItemPDA derive (script_programId script) itemId' = Inr itemPDA"
      "getHistoryPDA derive (script_programId script) (wallet_publicKey script) = Inr historyPDA"
      "getAccountInfo (script_connection script) itemPDA = Inr (Some itemData)"
      "getAccountInfo (script_connection script) historyPDA = Inr acc"
      "coder_decode_Item script itemData = Inr (i, p, u)"
      "getBalance (script_connection script) (wallet_publicKey script) = Inr b"
      "\<not> b < Number_of_bigint p"
    and tx: "txa = purchaseItem_transaction script shopPDA itemPDA historyPDA (acc \<noteq> None)"
    by (rule purchaseItem_SendE)
  show "\<exists>main. instructions txa = [SetComputeUnitLimit 1000000, ProgramInstruction main] \<and>
         programId main = script_programId script"
    unfolding tx
    by (simp add: purchaseItem_transaction_def new_Transaction_def add_def Let_def)
next
  assume "SendAndConfirmTransaction txb \<in> set (fst (addItemWithMetadata derive script metadata))"
  then obtain shopPDA itemPDA data' where
    "txb = add_item_transaction script shopPDA itemPDA data'"
    using addItemWithMetadata_SendD by blast
  then show "\<exists>main. instructions txb = [SetComputeUnitLimit 1000000, ProgramInstruction main] \<and>
         programId main = script_programId script"
    by (simp add: add_item_transaction_instructions)
next
  assume "SendAndConfirmTransaction txc \<in> set (fst (addItem derive script id' price' uri))"
  then obtain shopPDA itemPDA data' where
    "txc = add_item_transaction script shopPDA itemPDA data'"
    using addItem_SendD by blast
  then show "\<exists>main. instructions txc = [SetComputeUnitLimit 1000000, ProgramInstruction main] \<and>
         programId main = script_programId script"
    by (simp add: add_item_transaction_instructions)
next
  assume "SendAndConfirmTransaction txd \<in> set (fst (initializeShop derive script))"
  then obtain shopPDA where "txd = initializeShop_transaction script shopPDA"
    using initializeShop_SendD by blast
  then show "\<exists>main. instructions txd = [SetComputeUnitLimit 1000000, ProgramInstruction main] \<and>
         programId main = script_programId script"
    by (simp add: initializeShop_transaction_def new_Transaction_def add_def)
qed

theorem compute_budget_precedes_instruction_witness:
  "SignTransaction (example_transaction False)
     \<in> set (fst (handlePurchase (example_page (Some example_item_data) None 2000000000) 1)) \<and>
   SendAndConfirmTransaction (example_script_transaction False)
     \<in> set (fst (purchaseItem example_derive
          (example_script (example_accounts (Some example_item_data) None) 2000000000) 1)) \<and>
   SendAndConfirmTransaction example_add_item_transaction
     \<in> set (fst (addItemWithMetadata example_derive
          (example_script (example_accounts None None) 0) example_metadata)) \<and>
   SendAndConfirmTransaction example_add_item_transaction
     \<in> set (fst (addItem example_derive (example_script (example_accounts None None) 0)
          1 1000000000 ''image:https://x/y.png'')) \<and>
   SendAndConfirmTransaction example_initialize_transaction
     \<in> set (fst (initializeShop example_derive (example_script (\<lambda>n. None) 0))) \<and>
   hd (instructions (example_transaction False)) = SetComputeUnitLimit 1000000 \<and>
   hd (instructions (example_script_transaction False)) = SetComputeUnitLimit 1000000 \<and>
   hd (instructions example_add_item_transaction) = SetComputeUnitLimit 1000000 \<and>
   hd (instructions example_initialize_transaction) = SetComputeUnitLimit 1000000"
proof -
  have h: "SignTransaction (example_transaction False)
     \<in> set (fst (handlePurchase (example_page (Some example_item_data) None 2000000000) 1))"
    unfolding example_handlePurchase by simp
  have h1: "SendAndConfirmTransaction (example_script_transaction False)
     \<in> set (fst (purchaseItem example_derive
          (example_script (example_accounts (Some example_item_data) None) 2000000000) 1))"
    unfolding example_purchaseItem by simp
  have h2: "SendAndConfirmTransaction example_add_item_transaction
     \<in> set (fst (addItemWithMetadata example_derive
          (example_script (example_accounts None None) 0) example_metadata))"
    unfolding example_addItemWithMetadata by simp
  have h3: "SendAndConfirmTransaction example_add_item_transaction
     \<in> set (fst (addItem example_derive (example_script (example_accounts None None) 0)
          1 1000000000 ''image:https://x/y.png''))"
    unfolding example_addItem by simp
  have h4: "SendAndConfirmTransaction example_initialize_transaction
     \<in> set (fst (initializeShop example_derive (example_script (\<lambda>n. None) 0)))"
    unfolding example_initializeShop by simp
  note c = compute_budget_precedes_instruction [where tx = "example_transaction False"
      and page = "example_page (Some example_item_data) None 2000000000" and itemId' = 1
      and txa = "example_script_transaction False" and derive = example_derive
      and script = "example_script (example_accounts (Some example_item_data) None) 2000000000"]
  note c0 = c [THEN conjunct1, THEN mp, OF h]
  note c1 = c [THEN conjunct2, THEN conjunct1, THEN mp, OF h1]
  note d = compute_budget_precedes_instruction [where derive = example_derive
      and script = "example_script (example_accounts None None) 0"
      and txb = example_add_item_transaction and metadata = example_metadata
      and txc = example_add_item_transaction and id' = 1 and price' = 1000000000
      and uri = "''image:https://x/y.png''"]
  note c2 = d [THEN conjunct2, THEN conjunct2, THEN conjunct1, THEN mp, OF h2]
  note c3 = d [THEN conjunct2, THEN conjunct2, THEN conjunct2, THEN conjunct1, THEN mp, OF h3]
  note e = compute_budget_precedes_instruction [where derive = example_derive
      and script = "example_script (\<lambda>n. None) 0" and txd = example_initialize_transaction]
  note c4 = e [THEN conjunct2, THEN conjunct2, THEN conjunct2, THEN conjunct2, THEN mp, OF h4]
  from c0 c1 c2 c3 c4 have
    "hd (instructions (example_transaction False)) = SetComputeUnitLimit 1000000 \<and>
     hd (instructions (example_script_transaction False)) = SetComputeUnitLimit 1000000 \<and>
     hd (instructions example_add_item_transaction) = SetComputeUnitLimit 1000000 \<and>
     hd (instructions example_initialize_transaction) = SetComputeUnitLimit 1000000"
    by auto
  with h h1 h2 h3 h4 show ?thesis
    by blast
qed

section \<open>The balance check\<close>

lemma bit_length_0: "bit_length 0 = 0"
  by (simp add: bit_length.simps)

lemma bit_length_Suc_0: "bit_length (Suc 0) = Suc 0"
  by (simp add: bit_length.simps)

lemma bit_length_numeral: "bit_length (numeral k) = Suc (bit_length (numeral k div 2))"
  by (subst bit_length.simps) simp

lemmas number_defs = Number_of_bigint_def round_half_even_def bit_length_0 bit_length_Suc_0
  bit_length_numeral Let_def

lemma fst_io_bind_await: "\<exists>rest. fst (io_bind (io_await ev r) f) = ev # rest"
  by (cases r) (simp_all add: io_simps)

lemma fst_handlePurchase:
  "publicKey (wallet page) = Some walletKey \<Longrightarrow> connected (wallet page) \<Longrightarrow>
     fst (handlePurchase page itemId') = fst (handlePurchase_try page walletKey itemId')"
  by (simp add: handlePurchase_def split: prod.splits sum.splits)

lemma handlePurchase_insufficient:
  assumes "publicKey (wallet page) = Some walletKey" "connected (wallet page)"
    and "programPubkey page = Inr pid"
    and "getShopPDA (findProgramAddressSync page) pid = Inr shopPDA"
    and "getItemPDA (findProgramAddressSync page) pid itemId' = Inr itemPDA"
    and "getHistoryPDA (findProgramAddressSync page) pid walletKey = Inr historyPDA"
    and "getAccountInfo (connection page) shopPDA = Inr (Some shopData)"
    and "getAccountInfo (connection page) itemPDA = Inr (Some itemData)"
    and "readBigUInt64LE itemData 16 = Inr p"
    and "getBalance (connection page) walletKey = Inr balance"
    and "balance < Number_of_bigint p"
  shows "handlePurchase page itemId' =
     ([GetAccountInfo shopPDA, GetAccountInfo itemPDA, GetBalance walletKey],
      PurchaseFailed (InsufficientFunds (Number_of_bigint p) balance))"
  unfolding handlePurchase_def handlePurchase_try_def
  by (simp add: assms io_simps new_PublicKey_slice Let_def)

lemma handlePurchase_sufficient:
  assumes "publicKey (wallet page) = Some walletKey" "connected (wallet page)"
    and "programPubkey page = Inr pid"
    and "getShopPDA (findProgramAddressSync page) pid = Inr shopPDA"
    and "getItemPDA (findProgramAddressSync page) pid itemId' = Inr itemPDA"
    and "getHistoryPDA (findProgramAddressSync page) pid walletKey = Inr historyPDA"
    and "getAccountInfo (connection page) shopPDA = Inr (Some shopData)"
    and "getAccountInfo (connection page) itemPDA = Inr (Some itemData)"
    and "readBigUInt64LE itemData 16 = Inr p"
    and "getBalance (connection page) walletKey = Inr balance"
    and "\<not> balance < Number_of_bigint p"
  shows "\<exists>rest. fst (handlePurchase page itemId') =
     [GetAccountInfo shopPDA, GetAccountInfo itemPDA, GetBalance walletKey,
      GetAccountInfo historyPDA] @ rest"
proof -
  have "\<exists>rest. fst (handlePurchase_try page walletKey itemId') =
      GetAccountInfo shopPDA # GetAccountInfo itemPDA # GetBalance walletKey #
      GetAccountInfo historyPDA # rest"
    unfolding handlePurchase_try_def
    apply (simp add: assms io_simps new_PublicKey_slice Let_def)
    apply (rule fst_io_bind_await)
    done
  then show ?thesis
    using assms(1,2) by (simp add: fst_handlePurchase)
qed

lemma purchaseItem_insufficient:
  assumes "getShopPDA derive (script_programId script) = Inr shopPDA"
    and "getItemPDA derive (script_programId script) itemId' = Inr itemPDA"
    and "getHistoryPDA derive (script_programId script) (wallet_publicKey script) = Inr historyPDA"
    and "getAccountInfo (script_connection script) itemPDA = Inr (Some itemData)"
    and "getAccountInfo (script_connection script) historyPDA = Inr acc"
    and "coder_decode_Item script itemData = Inr (i, p, u)"
    and "getBalance (script_connection script) (wallet_publicKey script) = Inr balance"
    and "balance < Number_of_bigint p"
  shows "purchaseItem derive script itemId' =
     ([GetAccountInfo itemPDA, GetAccountInfo historyPDA, GetBalance (wallet_publicKey script)],
      Inl (InsufficientFunds (Number_of_bigint p) balance))"
  unfolding purchaseItem_def
  by (simp add: assms io_simps Let_def)

lemma purchaseItem_sufficient:
  assumes "getShopPDA derive (script_programId script) = Inr shopPDA"
    and "getItemPDA derive (script_programId script) itemId' = Inr itemPDA"
    and "getHistoryPDA derive (script_programId script) (wallet_publicKey script) = Inr historyPDA"
    and "getAccountInfo (script_connection script) itemPDA = Inr (Some itemData)"
    and "getAccountInfo (script_connection script) historyPDA = Inr acc"
    and "coder_decode_Item script itemData = Inr (i, p, u)"
    and "getBalance (script_connection script) (wallet_publicKey script) = Inr balance"
    and "\<not> balance < Number_of_bigint p"
  shows "\<exists>rest. fst (purchaseItem derive script itemId') =
     [GetAccountInfo itemPDA, GetAccountInfo historyPDA, GetBalance (wallet_publicKey script),
      SendAndConfirmTransaction
        (purchaseItem_transaction script shopPDA itemPDA historyPDA (acc \<noteq> None))] @ rest"
  unfolding purchaseItem_def
  apply (simp add: assms io_simps Let_def)
  apply (rule fst_io_bind_await)
  done

lemma example_costly_price:
  "readBigUInt64LE example_costly_item_data 16 = Inr 9007199254740993"
  by (simp add: example_costly_item_data_def buffer_defs)

lemma example_costly_number: "Number_of_bigint 9007199254740993 = 9007199254740992"
  by (simp add: number_defs)

lemma example_costly_handlePurchase:
  "handlePurchase (example_page (Some example_costly_item_data) None 9007199254740992) 1 =
     ([GetAccountInfo (PublicKey 4), GetAccountInfo (PublicKey 12), GetBalance (PublicKey 5),
       GetAccountInfo (PublicKey 39), GetLatestBlockhash,
       SignTransaction (example_transaction False),
       SendRawTransaction (example_tag False), ConfirmTransaction ''signature'',
       GetAccountInfo (PublicKey 39)],
      PurchaseSuccessful ''signature'' (Some [\<lparr>item_id = 1, timestamp = 1700000000\<rparr>]))"
  unfolding handlePurchase_def handlePurchase_try_def example_page_fields example_refresh
  by (simp add: io_bind_def io_of_def io_await_def io_throw_def example_shop example_item
      example_history example_admin example_costly_price example_costly_number example_built
      example_serialized example_wallet_def example_connection_def example_accounts_def
      Let_def)


text \<open>
  C5, as the claim states it, fails where the price is not a number JavaScript
  represents: the item costs 9007199254740993 lamports, the buyer owns
  9007199254740992, one lamport less, and the purchase is signed, sent and confirmed,
  because \<open>Number\<close> rounds the price to 9007199254740992 before the comparison.
\<close>

theorem balance_gate_counterexample:
  "readBigUInt64LE example_costly_item_data 16 = Inr 9007199254740993 \<and>
   getBalance (connection (example_page (Some example_costly_item_data) None 9007199254740992))
     (PublicKey 5) = Inr 9007199254740992 \<and>
   (9007199254740992 :: nat) < 9007199254740993 \<and>
   handlePurchase (example_page (Some example_costly_item_data) None 9007199254740992) 1 =
     ([GetAccountInfo (PublicKey 4), GetAccountInfo (PublicKey 12), GetBalance (PublicKey 5),
       GetAccountInfo (PublicKey 39), GetLatestBlockhash,
       SignTransaction (example_transaction False),
       SendRawTransaction (example_tag False), ConfirmTransaction ''signature'',
       GetAccountInfo (PublicKey 39)],
      PurchaseSuccessful ''signature'' (Some [\<lparr>item_id = 1, timestamp = 1700000000\<rparr>]))"
  using example_costly_handlePurchase
  by (simp add: example_costly_price example_page_fields example_connection_def)

text \<open>
  C5, amended. Where the shop and the item account exist and the item's price is a
  number JavaScript represents exactly (every price up to \<open>2 ^ 53\<close> lamports is), the
  price in lamports is compared with the balance in lamports. A buyer whose balance is
  below the price fails with \<open>InsufficientFunds\<close> after the reads of the accounts and of
  the balance, and no further request is made: no transaction is signed or sent. A
  buyer whose balance is the price or more passes the check: the next request is made
  (on the page the read of the history account, in the script the submission of the
  transaction, the history account having been read before the balance).
\<close>

theorem balance_gate:
  "(publicKey (wallet page) = Some walletKey \<and> connected (wallet page) \<and>
    programPubkey page = Inr pid \<and>
    getShopPDA (findProgramAddressSync page) pid = Inr shopPDA \<and>
    getItemPDA (findProgramAddressSync page) pid itemId' = Inr itemPDA \<and>
    getHistoryPDA (findProgramAddressSync page) pid walletKey = Inr historyPDA \<and>
    getAccountInfo (connection page) shopPDA = Inr (Some shopData) \<and>
    getAccountInfo (connection page) itemPDA = Inr (Some itemData) \<and>
    readBigUInt64LE itemData 16 = Inr price' \<and>
    Number_of_bigint price' = price' \<and>
    getBalance (connection page) walletKey = Inr balance \<longrightarrow>
      (balance < price' \<longrightarrow>
         handlePurchase page itemId' =
           ([GetAccountInfo shopPDA, GetAccountInfo itemPDA, GetBalance walletKey],
            PurchaseFailed (InsufficientFunds price' balance))) \<and>
      (price' \<le> balance \<longrightarrow>
         (\<exists>rest. fst (handlePurchase page itemId') =
            [GetAccountInfo shopPDA, GetAccountInfo itemPDA, GetBalance walletKey,
             GetAccountInfo historyPDA] @ rest))) \<and>
   (getShopPDA derive (script_programId script) = Inr scriptShopPDA \<and>
    getItemPDA derive (script_programId script) scriptItemId = Inr scriptItemPDA \<and>
    getHistoryPDA derive (script_programId script) (wallet_publicKey script)
      = Inr scriptHistoryPDA \<and>
    getAccountInfo (script_connection script) scriptItemPDA = Inr (Some scriptItemData) \<and>
    getAccountInfo (script_connection script) scriptHistoryPDA = Inr historyAccount \<and>
    coder_decode_Item script scriptItemData = Inr (i, cost, u) \<and>
    Number_of_bigint cost = cost \<and>
    getBalance (script_connection script) (wallet_publicKey script) = Inr funds \<longrightarrow>
      (funds < cost \<longrightarrow>
         purchaseItem derive script scriptItemId =
           ([GetAccountInfo scriptItemPDA, GetAccountInfo scriptHistoryPDA,
             GetBalance (wallet_publicKey script)],
            Inl (InsufficientFunds cost funds))) \<and>
      (cost \<le> funds \<longrightarrow>
         (\<exists>tx rest. fst (purchaseItem derive script scriptItemId) =
            [GetAccountInfo scriptItemPDA, GetAccountInfo scriptHistoryPDA,
             GetBalance (wallet_publicKey script), SendAndConfirmTransaction tx] @ rest)))"
proof (intro conjI impI)
  assume "publicKey (wallet page) = Some walletKey \<and> connected (wallet page) \<and>
    programPubkey page = Inr pid \<and>
    getShopPDA (findProgramAddressSync page) pid = Inr shopPDA \<and>
    getItemPDA (findProgramAddressSync page) pid itemId' = Inr itemPDA \<and>
    getHistoryPDA (findProgramAddressSync page) pid walletKey = Inr historyPDA \<and>
    getAccountInfo (connection page) shopPDA = Inr (Some shopData) \<and>
    getAccountInfo (connection page) itemPDA = Inr (Some itemData) \<and>
    readBigUInt64LE itemData 16 = Inr price' \<and>
    Number_of_bigint price' = price' \<and>
    getBalance (connection page) walletKey = Inr balance"
  then have page: "publicKey (wallet page) = Some walletKey" "connected (wallet page)"
    "programPubkey page = Inr pid"
    "getShopPDA (findProgramAddressSync page) pid = Inr shopPDA"
    "getItemPDA (findProgramAddressSync page) pid itemId' = Inr itemPDA"
    "getHistoryPDA (findProgramAddressSync page) pid walletKey = Inr historyPDA"
    "getAccountInfo (connection page) shopPDA = Inr (Some shopData)"
    "getAccountInfo (connection page) itemPDA = Inr (Some itemData)"
    "readBigUInt64LE itemData 16 = Inr price'"
    "getBalance (connection page) walletKey = Inr balance"
    and exact: "Number_of_bigint price' = price'"
    by blast+
  assume "balance < price'"
  then have "balance < Number_of_bigint price'"
    using exact by simp
  with page have "handlePurchase page itemId' =
           ([GetAccountInfo shopPDA, GetAccountInfo itemPDA, GetBalance walletKey],
            PurchaseFailed (InsufficientFunds (Number_of_bigint price') balance))"
    by (rule handlePurchase_insufficient)
  then show "handlePurchase page itemId' =
           ([GetAccountInfo shopPDA, GetAccountInfo itemPDA, GetBalance walletKey],
            PurchaseFailed (InsufficientFunds price' balance))"
    using exact by simp
next
  assume "publicKey (wallet page) = Some walletKey \<and> connected (wallet page) \<and>
    programPubkey page = Inr pid \<and>
    getShopPDA (findProgramAddressSync page) pid = Inr shopPDA \<and>
    getItemPDA (findProgramAddressSync page) pid itemId' = Inr itemPDA \<and>
    getHistoryPDA (findProgramAddressSync page) pid walletKey = Inr historyPDA \<and>
    getAccountInfo (connection page) shopPDA = Inr (Some shopData) \<and>
    getAccountInfo (connection page) itemPDA = Inr (Some itemData) \<and>
    readBigUInt64LE itemData 16 = Inr price' \<and>
    Number_of_bigint price' = price' \<and>
    getBalance (connection page) walletKey = Inr balance"
  then have page: "publicKey (wallet page) = Some walletKey" "connected (wallet page)"
    "programPubkey page = Inr pid"
    "getShopPDA (findProgramAddressSync page) pid = Inr shopPDA"
    "getItemPDA (findProgramAddressSync page) pid itemId' = Inr itemPDA"
    "getHistoryPDA (findProgramAddressSync page) pid walletKey = Inr historyPDA"
    "getAccountInfo (connection page) shopPDA = Inr (Some shopData)"
    "getAccountInfo (connection page) itemPDA = Inr (Some itemData)"
    "readBigUInt64LE itemData 16 = Inr price'"
    "getBalance (connection page) walletKey = Inr balance"
    and exact: "Number_of_bigint price' = price'"
    by blast+
  assume "price' \<le> balance"
  then have "\<not> balance < Number_of_bigint price'"
    using exact by simp
  with page show "\<exists>rest. fst (handlePurchase page itemId') =
            [GetAccountInfo shopPDA, GetAccountInfo itemPDA, GetBalance walletKey,
             GetAccountInfo historyPDA] @ rest"
    by (rule handlePurchase_sufficient)
next
  assume "getShopPDA derive (script_programId script) = Inr scriptShopPDA \<and>
    getItemPDA derive (script_programId script) scriptItemId = Inr scriptItemPDA \<and>
    getHistoryPDA derive (script_programId script) (wallet_publicKey script)
      = Inr scriptHistoryPDA \<and>
    getAccountInfo (script_connection script) scriptItemPDA = Inr (Some scriptItemData) \<and>
    getAccountInfo (script_connection script) scriptHistoryPDA = Inr historyAccount \<and>
    coder_decode_Item script scriptItemData = Inr (i, cost, u) \<and>
    Number_of_bigint cost = cost \<and>
    getBalance (script_connection script) (wallet_publicKey script) = Inr funds"
  then have script: "getShopPDA derive (script_programId script) = Inr scriptShopPDA"
    "getItemPDA derive (script_programId script) scriptItemId = Inr scriptItemPDA"
    "getHistoryPDA derive (script_programId script) (wallet_publicKey script)
      = Inr scriptHistoryPDA"
    "getAccountInfo (script_connection script) scriptItemPDA = Inr (Some scriptItemData)"
    "getAccountInfo (script_connection script) scriptHistoryPDA = Inr historyAccount"
    "coder_decode_Item script scriptItemData = Inr (i, cost, u)"
    "getBalance (script_connection script) (wallet_publicKey script) = Inr funds"
    and exact: "Number_of_bigint cost = cost"
    by blast+
  assume "funds < cost"
  then have "funds < Number_of_bigint cost"
    using exact by simp
  with script have "purchaseItem derive script scriptItemId =
           ([GetAccountInfo scriptItemPDA, GetAccountInfo scriptHistoryPDA,
             GetBalance (wallet_publicKey script)],
            Inl (InsufficientFunds (Number_of_bigint cost) funds))"
    by (rule purchaseItem_insufficient)
  then show "purchaseItem derive script scriptItemId =
           ([GetAccountInfo scriptItemPDA, GetAccountInfo scriptHistoryPDA,
             GetBalance (wallet_publicKey script)],
            Inl (InsufficientFunds cost funds))"
    using exact by simp
next
  assume "getShopPDA derive (script_programId script) = Inr scriptShopPDA \<and>
    getItemPDA derive (script_programId script) scriptItemId = Inr scriptItemPDA \<and>
    getHistoryPDA derive (script_programId script) (wallet_publicKey script)
      = Inr scriptHistoryPDA \<and>
    getAccountInfo (script_connection script) scriptItemPDA = Inr (Some scriptItemData) \<and>
    getAccountInfo (script_connection script) scriptHistoryPDA = Inr historyAccount \<and>
    coder_decode_Item script scriptItemData = Inr (i, cost, u) \<and>
    Number_of_bigint cost = cost \<and>
    getBalance (script_connection script) (wallet_publicKey script) = Inr funds"
  then have script: "getShopPDA derive (script_programId script) = Inr scriptShopPDA"
    "getItemPDA derive (script_programId script) scriptItemId = Inr scriptItemPDA"
    "getHistoryPDA derive (script_programId script) (wallet_publicKey script)
      = Inr scriptHistoryPDA"
    "getAccountInfo (script_connection script) scriptItemPDA = Inr (Some scriptItemData)"
    "getAccountInfo (script_connection script) scriptHistoryPDA = Inr historyAccount"
    "coder_decode_Item script scriptItemData = Inr (i, cost, u)"
    "getBalance (script_connection script) (wallet_publicKey script) = Inr funds"
    and exact: "Number_of_bigint cost = cost"
    by blast+
  assume "cost \<le> funds"
  then have "\<not> funds < Number_of_bigint cost"
    using exact by simp
  with script have "\<exists>rest. fst (purchaseItem derive script scriptItemId) =
     [GetAccountInfo scriptItemPDA, GetAccountInfo scriptHistoryPDA,
      GetBalance (wallet_publicKey script),
      SendAndConfirmTransaction
        (purchaseItem_transaction script scriptShopPDA scriptItemPDA scriptHistoryPDA
           (historyAccount \<noteq> None))] @ rest"
    by (rule purchaseItem_sufficient)
  then show "\<exists>tx rest. fst (purchaseItem derive script scriptItemId) =
            [GetAccountInfo scriptItemPDA, GetAccountInfo scriptHistoryPDA,
             GetBalance (wallet_publicKey script), SendAndConfirmTransaction tx] @ rest"
    by blast
qed

theorem balance_gate_witness:
  "handlePurchase (example_page (Some example_item_data) None 999999999) 1 =
     ([GetAccountInfo (PublicKey 4), GetAccountInfo (PublicKey 12), GetBalance (PublicKey 5)],
      PurchaseFailed (InsufficientFunds 1000000000 999999999)) \<and>
   purchaseItem example_derive
       (example_script (example_accounts (Some example_item_data) None) 999999999) 1 =
     ([GetAccountInfo (PublicKey 12), GetAccountInfo (PublicKey 39), GetBalance (PublicKey 5)],
      Inl (InsufficientFunds 1000000000 999999999)) \<and>
   (\<exists>rest. fst (handlePurchase (example_page (Some example_item_data) None 1000000000) 1) =
      [GetAccountInfo (PublicKey 4), GetAccountInfo (PublicKey 12), GetBalance (PublicKey 5),
       GetAccountInfo (PublicKey 39)] @ rest) \<and>
   (\<exists>tx rest. fst (purchaseItem example_derive
       (example_script (example_accounts (Some example_item_data) None) 1000000000) 1) =
      [GetAccountInfo (PublicKey 12), GetAccountInfo (PublicKey 39), GetBalance (PublicKey 5),
       SendAndConfirmTransaction tx] @ rest)"
proof -
  have page: "publicKey (wallet (example_page (Some example_item_data) None b))
      = Some (PublicKey 5) \<and>
    connected (wallet (example_page (Some example_item_data) None b)) \<and>
    programPubkey (example_page (Some example_item_data) None b) = Inr (PublicKey 9) \<and>
    getShopPDA (findProgramAddressSync (example_page (Some example_item_data) None b))
       (PublicKey 9) = Inr (PublicKey 4) \<and>
    getItemPDA (findProgramAddressSync (example_page (Some example_item_data) None b))
       (PublicKey 9) 1 = Inr (PublicKey 12) \<and>
    getHistoryPDA (findProgramAddressSync (example_page (Some example_item_data) None b))
       (PublicKey 9) (PublicKey 5) = Inr (PublicKey 39) \<and>
    getAccountInfo (connection (example_page (Some example_item_data) None b)) (PublicKey 4)
       = Inr (Some example_shop_data) \<and>
    getAccountInfo (connection (example_page (Some example_item_data) None b)) (PublicKey 12)
       = Inr (Some example_item_data) \<and>
    readBigUInt64LE example_item_data 16 = Inr 1000000000 \<and>
    Number_of_bigint 1000000000 = 1000000000 \<and>
    getBalance (connection (example_page (Some example_item_data) None b)) (PublicKey 5) = Inr b"
    for b
    by (simp add: example_page_fields example_wallet_def example_shop example_item
        example_history example_connection_def example_accounts_def example_price
        example_number)
  have script: "getShopPDA example_derive
       (script_programId (example_script (example_accounts (Some example_item_data) None) b))
       = Inr (PublicKey 4) \<and>
    getItemPDA example_derive
       (script_programId (example_script (example_accounts (Some example_item_data) None) b)) 1
       = Inr (PublicKey 12) \<and>
    getHistoryPDA example_derive
       (script_programId (example_script (example_accounts (Some example_item_data) None) b))
       (wallet_publicKey (example_script (example_accounts (Some example_item_data) None) b))
       = Inr (PublicKey 39) \<and>
    getAccountInfo (script_connection
        (example_script (example_accounts (Some example_item_data) None) b)) (PublicKey 12)
       = Inr (Some example_item_data) \<and>
    getAccountInfo (script_connection
        (example_script (example_accounts (Some example_item_data) None) b)) (PublicKey 39)
       = Inr None \<and>
    coder_decode_Item (example_script (example_accounts (Some example_item_data) None) b)
        example_item_data = Inr (1, 1000000000, ''image:https://x/y.png'') \<and>
    Number_of_bigint 1000000000 = 1000000000 \<and>
    getBalance (script_connection
        (example_script (example_accounts (Some example_item_data) None) b))
        (wallet_publicKey (example_script (example_accounts (Some example_item_data) None) b))
       = Inr b"
    for b
    by (simp add: example_script_fields example_shop example_item example_history
        example_connection_def example_accounts_def example_number)
  have low: "(999999999 :: nat) < 1000000000" and enough: "(1000000000 :: nat) \<le> 1000000000"
    by simp_all
  note p = balance_gate [where derive = example_derive, THEN conjunct1, THEN mp, OF page]
  note s = balance_gate [where derive = example_derive, THEN conjunct2, THEN mp, OF script]
  note c1 = p [of 999999999, THEN conjunct1, THEN mp, OF low]
  note c2 = s [of 999999999, THEN conjunct1, THEN mp, OF low]
  note c3 = p [of 1000000000, THEN conjunct2, THEN mp, OF enough]
  note c4 = s [of 1000000000, THEN conjunct2, THEN mp, OF enough]
  from c1 c2 c3 c4 show ?thesis
    by (simp add: example_script_fields)
qed

section \<open>Decoding\<close>



lemma checkPurchaseHistory_parse_eq:
  "checkPurchaseHistory_parse walletKey data' =
     (if be_nat (slice data' 8 40) \<noteq> bn walletKey then Inr []
      else case readUInt32LE data' 40 of
             Inl e \<Rightarrow> Inl e
           | Inr purchasesLength \<Rightarrow> parse_purchases data' 44 purchasesLength)"
  by (simp add: checkPurchaseHistory_parse_def new_PublicKey_slice equals_def Let_def
      cong: sum.case_cong)

lemma user_field_matches:
  assumes "40 \<le> length data'" and "be_nat (slice data' 8 40) = bn walletKey"
  shows "slice data' 8 40 = toBuffer walletKey"
proof -
  have "length (slice data' 8 40) = 32"
    using assms(1) by (simp add: slice_def)
  then have "be_bytes 32 (be_nat (slice data' 8 40)) = slice data' 8 40"
    using be_bytes_be_nat [of "slice data' 8 40"] by simp
  then show ?thesis
    using assms(2) by (simp add: toBuffer_def)
qed

lemma checkPurchaseHistory_eq:
  assumes "publicKey (wallet page) = Some walletKey" and "connected (wallet page)"
    and "programPubkey page = Inr pid"
    and "getHistoryPDA (findProgramAddressSync page) pid walletKey = Inr historyPDA"
    and "getAccountInfo (connection page) historyPDA = Inr (Some data')"
  shows "checkPurchaseHistory page =
     ([GetAccountInfo historyPDA],
      case checkPurchaseHistory_parse walletKey data' of
        Inr purchases \<Rightarrow> Some purchases
      | Inl e \<Rightarrow> Some [\<lparr>item_id = 1, timestamp = js_div (Date_now page) 1000\<rparr>])"
  by (simp add: checkPurchaseHistory_def assms)

text \<open>
  C10. When the history account of the connected wallet holds the key of somebody else
  in its user field (bytes 8..40), the purchase-history check reads no record and sets
  an empty purchase list. So a list that the check takes from the account, when it is
  not empty, comes from an account whose user field is the connected buyer's key.
\<close>

theorem foreign_history_is_discarded:
  assumes "publicKey (wallet page) = Some walletKey" and "connected (wallet page)"
    and "programPubkey page = Inr pid"
    and "getHistoryPDA (findProgramAddressSync page) pid walletKey = Inr historyPDA"
    and "getAccountInfo (connection page) historyPDA = Inr (Some data')"
  shows "(40 \<le> length data' \<and> slice data' 8 40 \<noteq> toBuffer walletKey \<longrightarrow>
            checkPurchaseHistory page = ([GetAccountInfo historyPDA], Some [])) \<and>
         (checkPurchaseHistory_parse walletKey data' = Inr purchases \<and> purchases \<noteq> [] \<longrightarrow>
            slice data' 8 40 = toBuffer walletKey \<and>
            checkPurchaseHistory page = ([GetAccountInfo historyPDA], Some purchases))"
proof (intro conjI impI)
  assume "40 \<le> length data' \<and> slice data' 8 40 \<noteq> toBuffer walletKey"
  then have "be_nat (slice data' 8 40) \<noteq> bn walletKey"
    using user_field_matches by blast
  then have "checkPurchaseHistory_parse walletKey data' = Inr []"
    by (simp add: checkPurchaseHistory_parse_eq)
  then show "checkPurchaseHistory page = ([GetAccountInfo historyPDA], Some [])"
    by (simp add: checkPurchaseHistory_eq [OF assms])
next
  assume parsed: "checkPurchaseHistory_parse walletKey data' = Inr purchases \<and> purchases \<noteq> []"
  then show "checkPurchaseHistory page = ([GetAccountInfo historyPDA], Some purchases)"
    by (simp add: checkPurchaseHistory_eq [OF assms])
  from parsed have user: "be_nat (slice data' 8 40) = bn walletKey"
    by (auto simp: checkPurchaseHistory_parse_eq split: if_splits)
  with parsed have "\<exists>n. readUInt32LE data' 40 = Inr n"
    by (auto simp: checkPurchaseHistory_parse_eq split: sum.splits)
  then have "40 \<le> length data'"
    by (auto simp: readUInt32LE_def split: if_splits)
  then show "slice data' 8 40 = toBuffer walletKey"
    using user by (rule user_field_matches)
qed

lemma example_foreign_parse:
  "checkPurchaseHistory_parse (PublicKey 5) example_foreign_history_data = Inr []"
  by (simp add: checkPurchaseHistory_parse_def example_foreign_history_data_def buffer_defs
      equals_def)

theorem foreign_history_is_discarded_witness:
  "40 \<le> length example_foreign_history_data \<and>
   slice example_foreign_history_data 8 40 \<noteq> toBuffer (PublicKey 5) \<and>
   checkPurchaseHistory
     (example_page (Some example_item_data) (Some example_foreign_history_data) 0)
     = ([GetAccountInfo (PublicKey 39)], Some []) \<and>
   checkPurchaseHistory_parse (PublicKey 5) example_history_data
     = Inr [\<lparr>item_id = 1, timestamp = 1700000000\<rparr>] \<and>
   slice example_history_data 8 40 = toBuffer (PublicKey 5) \<and>
   checkPurchaseHistory (example_page (Some example_item_data) (Some example_history_data) 0)
     = ([GetAccountInfo (PublicKey 39)], Some [\<lparr>item_id = 1, timestamp = 1700000000\<rparr>])"
proof -
  have page: "publicKey (wallet (example_page (Some example_item_data) (Some h) 0))
       = Some (PublicKey 5)"
    "connected (wallet (example_page (Some example_item_data) (Some h) 0))"
    "programPubkey (example_page (Some example_item_data) (Some h) 0) = Inr (PublicKey 9)"
    "getHistoryPDA (findProgramAddressSync (example_page (Some example_item_data) (Some h) 0))
       (PublicKey 9) (PublicKey 5) = Inr (PublicKey 39)"
    "getAccountInfo (connection (example_page (Some example_item_data) (Some h) 0))
       (PublicKey 39) = Inr (Some h)"
    for h
    by (simp_all add: example_page_fields example_wallet_def example_history
        example_connection_def example_accounts_def)
  have foreign: "40 \<le> length example_foreign_history_data \<and>
      slice example_foreign_history_data 8 40 \<noteq> toBuffer (PublicKey 5)"
    by (simp add: example_foreign_history_data_def buffer_defs)
  have own: "checkPurchaseHistory_parse (PublicKey 5) example_history_data
       = Inr [\<lparr>item_id = 1, timestamp = 1700000000\<rparr>] \<and>
     [\<lparr>item_id = 1, timestamp = 1700000000\<rparr>] \<noteq> []"
    by (simp add: example_parse)
  note a = foreign_history_is_discarded [OF page, THEN conjunct1, THEN mp, OF foreign]
  note b = foreign_history_is_discarded [OF page, THEN conjunct2, THEN mp, OF own]
  from foreign own a b show ?thesis
    by simp
qed

lemmas js_div_defs = js_div_def floor_log2_ratio_def scale2_def number_defs

lemma example_sol: "js_div 1000000000 1000000000 = 1"
  by (simp add: js_div_defs)

lemma example_two_sol: "js_div 2000000000 1000000000 = 2"
  by (simp add: js_div_defs)

lemma example_now: "js_div 1800000000000 1000 = 1800000000"
  by (simp add: js_div_defs)

lemma fetchItemDetails_parse_short:
  "length data' < 28 \<Longrightarrow> fetchItemDetails_parse toString data' = Inl RangeError"
  by (simp add: fetchItemDetails_parse_def readBigUInt64LE_def readUInt32LE_def Let_def)

lemma fetchItemDetails_parse_long:
  "28 \<le> length data' \<Longrightarrow>
     fetchItemDetails_parse toString data' =
       Inr \<lparr>itemId = Number_of_bigint (le_nat (take 8 (drop 8 data'))),
            price = js_div (Number_of_bigint (le_nat (take 8 (drop 16 data')))) 1000000000,
            metadataUri = toString (take (le_nat (take 4 (drop 24 data'))) (drop 28 data'))\<rparr>"
  by (simp add: fetchItemDetails_parse_def readBigUInt64LE_def readUInt32LE_def slice_def Let_def)

lemma length_Buffer_from [simp]: "length (Buffer_from s) = length s"
  by (simp add: Buffer_from_def)

lemma example_toString_Buffer_from: "example_toString (Buffer_from s) = s"
  by (induction s) (simp_all add: example_toString_def Buffer_from_def unat_of_nat)

lemmas read_defs = slice_def readBigUInt64LE_def readUInt32LE_def readBigInt64LE_def
  new_PublicKey_def be_nat_def


lemma example_truncated_history:
  "checkPurchaseHistory_parse (PublicKey 5) example_truncated_history_data = Inl RangeError"
  by (simp add: checkPurchaseHistory_parse_eq example_truncated_history_data_def buffer_defs
      parse_purchases_1)


lemma fetchItemDetails_eq:
  assumes "getItemPDA (findProgramAddressSync page) pid id' = Inr itemPDA"
    and "getAccountInfo (connection page) itemPDA = Inr (Some itemData)"
  shows "fetchItemDetails page pid id' =
     ([GetAccountInfo itemPDA],
      case fetchItemDetails_parse (toString_utf8 page) itemData of
        Inl e \<Rightarrow> None
      | Inr item \<Rightarrow> Some item)"
  by (simp add: fetchItemDetails_def assms)





lemma handlePurchase_price_unreadable:
  assumes "publicKey (wallet page) = Some walletKey" "connected (wallet page)"
    and "programPubkey page = Inr pid"
    and "getShopPDA (findProgramAddressSync page) pid = Inr shopPDA"
    and "getItemPDA (findProgramAddressSync page) pid itemId' = Inr itemPDA"
    and "getHistoryPDA (findProgramAddressSync page) pid walletKey = Inr historyPDA"
    and "getAccountInfo (connection page) shopPDA = Inr (Some shopData)"
    and "getAccountInfo (connection page) itemPDA = Inr (Some itemData)"
    and "readBigUInt64LE itemData 16 = Inl e"
  shows "handlePurchase page itemId' =
     ([GetAccountInfo shopPDA, GetAccountInfo itemPDA], PurchaseFailed e)"
  unfolding handlePurchase_def handlePurchase_try_def
  by (simp add: assms io_simps new_PublicKey_slice Let_def)

lemma getItem_eq:
  assumes "getItemPDA derive (script_programId script) id' = Inr itemPDA"
    and "getAccountInfo (script_connection script) itemPDA = Inr (Some accountData)"
  shows "getItem derive script toString id' =
     ([GetAccountInfo itemPDA],
      case getItem_parse toString accountData of
        Inl e \<Rightarrow> Inl e
      | Inr item \<Rightarrow> Inr (Some item))"
  unfolding getItem_def
  by (simp add: assms io_simps split: sum.splits)

lemma getItem_parse_empty: "getItem_parse toString [] = Inl RangeError"
  by (simp add: getItem_parse_def read_defs)

lemma readBigUInt64LE_empty: "readBigUInt64LE [] 16 = Inl RangeError"
  by (simp add: read_defs)

text \<open>
  C4, as the claim states it, fails: the buyer's history account declares one record
  and holds none, the parse throws a \<open>RangeError\<close>, and \<open>checkPurchaseHistory\<close> sets
  the purchase list to a record that is in no account: item 1, bought now.
\<close>

theorem placeholder_history_counterexample:
  "checkPurchaseHistory_parse (PublicKey 5) example_truncated_history_data = Inl RangeError \<and>
   checkPurchaseHistory
     (example_page (Some example_item_data) (Some example_truncated_history_data) 0) =
     ([GetAccountInfo (PublicKey 39)], Some [\<lparr>item_id = 1, timestamp = 1800000000\<rparr>])"
  by (simp add: example_truncated_history checkPurchaseHistory_def example_page_def
      example_wallet_def example_history example_connection_def example_accounts_def
      example_now)

text \<open>
  C4, amended. A decode that fails is surfaced as the error thrown by two callers:
  \<open>getItem\<close> rethrows the error of its parse, and \<open>handlePurchase\<close> reports the error of
  reading the item's price as the failed purchase, after it has read the shop and the
  item account and before it reads the balance. Two callers on the shop page catch it
  and go on: when the parse of the purchase history fails, \<open>checkPurchaseHistory\<close>
  sets the purchase list to one placeholder record, with item id 1 and the current
  time in seconds as its timestamp; when the parse of an item fails,
  \<open>fetchItemDetails\<close> answers \<open>null\<close>, and no item is made up.
\<close>

theorem failed_decode_outcomes:
  "(getItemPDA derive (script_programId script) scriptItemId = Inr scriptItemPDA \<and>
    getAccountInfo (script_connection script) scriptItemPDA = Inr (Some accountData) \<and>
    getItem_parse toString accountData = Inl e1 \<longrightarrow>
      getItem derive script toString scriptItemId =
        ([GetAccountInfo scriptItemPDA], Inl e1)) \<and>
   (publicKey (wallet page) = Some walletKey \<and> connected (wallet page) \<and>
    programPubkey page = Inr pid \<and>
    getShopPDA (findProgramAddressSync page) pid = Inr shopPDA \<and>
    getItemPDA (findProgramAddressSync page) pid itemId' = Inr itemPDA \<and>
    getHistoryPDA (findProgramAddressSync page) pid walletKey = Inr historyPDA \<and>
    getAccountInfo (connection page) shopPDA = Inr (Some shopData) \<and>
    getAccountInfo (connection page) itemPDA = Inr (Some itemData) \<and>
    readBigUInt64LE itemData 16 = Inl e2 \<longrightarrow>
      handlePurchase page itemId' =
        ([GetAccountInfo shopPDA, GetAccountInfo itemPDA], PurchaseFailed e2)) \<and>
   (publicKey (wallet page) = Some walletKey \<and> connected (wallet page) \<and>
    programPubkey page = Inr pid \<and>
    getHistoryPDA (findProgramAddressSync page) pid walletKey = Inr historyPDA \<and>
    getAccountInfo (connection page) historyPDA = Inr (Some history) \<and>
    checkPurchaseHistory_parse walletKey history = Inl e3 \<longrightarrow>
      checkPurchaseHistory page =
        ([GetAccountInfo historyPDA],
         Some [\<lparr>item_id = 1, timestamp = js_div (Date_now page) 1000\<rparr>])) \<and>
   (getItemPDA (findProgramAddressSync page) programId' id' = Inr fetchedPDA \<and>
    getAccountInfo (connection page) fetchedPDA = Inr (Some fetchedData) \<and>
    fetchItemDetails_parse (toString_utf8 page) fetchedData = Inl e4 \<longrightarrow>
      fetchItemDetails page programId' id' = ([GetAccountInfo fetchedPDA], None))"
proof (intro conjI impI)
  assume "getItemPDA derive (script_programId script) scriptItemId = Inr scriptItemPDA \<and>
    getAccountInfo (script_connection script) scriptItemPDA = Inr (Some accountData) \<and>
    getItem_parse toString accountData = Inl e1"
  then show "getItem derive script toString scriptItemId =
        ([GetAccountInfo scriptItemPDA], Inl e1)"
    by (simp add: getItem_eq [of derive script scriptItemId scriptItemPDA accountData])
next
  assume "publicKey (wallet page) = Some walletKey \<and> connected (wallet page) \<and>
    programPubkey page = Inr pid \<and>
    getShopPDA (findProgramAddressSync page) pid = Inr shopPDA \<and>
    getItemPDA (findProgramAddressSync page) pid itemId' = Inr itemPDA \<and>
    getHistoryPDA (findProgramAddressSync page) pid walletKey = Inr historyPDA \<and>
    getAccountInfo (connection page) shopPDA = Inr (Some shopData) \<and>
    getAccountInfo (connection page) itemPDA = Inr (Some itemData) \<and>
    readBigUInt64LE itemData 16 = Inl e2"
  then have "publicKey (wallet page) = Some walletKey" "connected (wallet page)"
    "programPubkey page = Inr pid"
    "getShopPDA (findProgramAddressSync page) pid = Inr shopPDA"
    "getItemPDA (findProgramAddressSync page) pid itemId' = Inr itemPDA"
    "getHistoryPDA (findProgramAddressSync page) pid walletKey = Inr historyPDA"
    "getAccountInfo (connection page) shopPDA = Inr (Some shopData)"
    "getAccountInfo (connection page) itemPDA = Inr (Some itemData)"
    "readBigUInt64LE itemData 16 = Inl e2"
    by blast+
  then show "handlePurchase page itemId' =
        ([GetAccountInfo shopPDA, GetAccountInfo itemPDA], PurchaseFailed e2)"
    by (rule handlePurchase_price_unreadable)
next
  assume "publicKey (wallet page) = Some walletKey \<and> connected (wallet page) \<and>
    programPubkey page = Inr pid \<and>
    getHistoryPDA (findProgramAddressSync page) pid walletKey = Inr historyPDA \<and>
    getAccountInfo (connection page) historyPDA = Inr (Some history) \<and>
    checkPurchaseHistory_parse walletKey history = Inl e3"
  then show "checkPurchaseHistory page =
        ([GetAccountInfo historyPDA],
         Some [\<lparr>item_id = 1, timestamp = js_div (Date_now page) 1000\<rparr>])"
    by (simp add: checkPurchaseHistory_eq [of page walletKey pid historyPDA history])
next
  assume "getItemPDA (findProgramAddressSync page) programId' id' = Inr fetchedPDA \<and>
    getAccountInfo (connection page) fetchedPDA = Inr (Some fetchedData) \<and>
    fetchItemDetails_parse (toString_utf8 page) fetchedData = Inl e4"
  then show "fetchItemDetails page programId' id' = ([GetAccountInfo fetchedPDA], None)"
    by (simp add: fetchItemDetails_eq [of page programId' id' fetchedPDA fetchedData])
qed

theorem failed_decode_outcomes_witness:
  "getItem_parse example_toString [] = Inl RangeError \<and>
   readBigUInt64LE [] 16 = Inl RangeError \<and>
   checkPurchaseHistory_parse (PublicKey 5) example_truncated_history_data = Inl RangeError \<and>
   fetchItemDetails_parse example_toString [] = Inl RangeError \<and>
   getItem example_derive (example_script (example_accounts (Some []) None) 0)
     example_toString 1 = ([GetAccountInfo (PublicKey 12)], Inl RangeError) \<and>
   handlePurchase (example_page (Some []) (Some example_truncated_history_data) 0) 1 =
     ([GetAccountInfo (PublicKey 4), GetAccountInfo (PublicKey 12)],
      PurchaseFailed RangeError) \<and>
   checkPurchaseHistory (example_page (Some []) (Some example_truncated_history_data) 0) =
     ([GetAccountInfo (PublicKey 39)], Some [\<lparr>item_id = 1, timestamp = 1800000000\<rparr>]) \<and>
   fetchItemDetails (example_page (Some []) (Some example_truncated_history_data) 0)
     (PublicKey 9) 1 = ([GetAccountInfo (PublicKey 12)], None)"
proof -
  have h1: "getItemPDA example_derive
      (script_programId (example_script (example_accounts (Some []) None) 0)) 1
      = Inr (PublicKey 12) \<and>
    getAccountInfo (script_connection (example_script (example_accounts (Some []) None) 0))
      (PublicKey 12) = Inr (Some []) \<and>
    getItem_parse example_toString [] = Inl RangeError"
    by (simp add: example_script_fields example_item example_connection_def
        example_accounts_def getItem_parse_empty)
  have h2: "publicKey (wallet (example_page (Some []) (Some example_truncated_history_data) 0))
      = Some (PublicKey 5) \<and>
    connected (wallet (example_page (Some []) (Some example_truncated_history_data) 0)) \<and>
    programPubkey (example_page (Some []) (Some example_truncated_history_data) 0)
      = Inr (PublicKey 9) \<and>
    getShopPDA
      (findProgramAddressSync (example_page (Some []) (Some example_truncated_history_data) 0))
      (PublicKey 9) = Inr (PublicKey 4) \<and>
    getItemPDA
      (findProgramAddressSync (example_page (Some []) (Some example_truncated_history_data) 0))
      (PublicKey 9) 1 = Inr (PublicKey 12) \<and>
    getHistoryPDA
      (findProgramAddressSync (example_page (Some []) (Some example_truncated_history_data) 0))
      (PublicKey 9) (PublicKey 5) = Inr (PublicKey 39) \<and>
    getAccountInfo (connection (example_page (Some []) (Some example_truncated_history_data) 0))
      (PublicKey 4) = Inr (Some example_shop_data) \<and>
    getAccountInfo (connection (example_page (Some []) (Some example_truncated_history_data) 0))
      (PublicKey 12) = Inr (Some []) \<and>
    readBigUInt64LE [] 16 = Inl RangeError"
    by (simp add: example_page_fields example_wallet_def example_shop example_item
        example_history example_connection_def example_accounts_def readBigUInt64LE_empty)
  have h3: "publicKey (wallet (example_page (Some []) (Some example_truncated_history_data) 0))
      = Some (PublicKey 5) \<and>
    connected (wallet (example_page (Some []) (Some example_truncated_history_data) 0)) \<and>
    programPubkey (example_page (Some []) (Some example_truncated_history_data) 0)
      = Inr (PublicKey 9) \<and>
    getHistoryPDA
      (findProgramAddressSync (example_page (Some []) (Some example_truncated_history_data) 0))
      (PublicKey 9) (PublicKey 5) = Inr (PublicKey 39) \<and>
    getAccountInfo (connection (example_page (Some []) (Some example_truncated_history_data) 0))
      (PublicKey 39) = Inr (Some example_truncated_history_data) \<and>
    checkPurchaseHistory_parse (PublicKey 5) example_truncated_history_data = Inl RangeError"
    by (simp add: example_page_fields example_wallet_def example_history
        example_connection_def example_accounts_def example_truncated_history)
  have h4: "getItemPDA
      (findProgramAddressSync (example_page (Some []) (Some example_truncated_history_data) 0))
      (PublicKey 9) 1 = Inr (PublicKey 12) \<and>
    getAccountInfo (connection (example_page (Some []) (Some example_truncated_history_data) 0))
      (PublicKey 12) = Inr (Some []) \<and>
    fetchItemDetails_parse
      (toString_utf8 (example_page (Some []) (Some example_truncated_history_data) 0)) []
      = Inl RangeError"
    by (simp add: example_page_fields example_item example_connection_def
        example_accounts_def fetchItemDetails_parse_short)
  note c1 = failed_decode_outcomes [THEN conjunct1, THEN mp, OF h1]
  note c2 = failed_decode_outcomes [THEN conjunct2, THEN conjunct1, THEN mp, OF h2]
  note c3 = failed_decode_outcomes [THEN conjunct2, THEN conjunct2, THEN conjunct1, THEN mp, OF h3]
  note c4 = failed_decode_outcomes [THEN conjunct2, THEN conjunct2, THEN conjunct2, THEN mp, OF h4]
  have now: "js_div (Date_now (example_page (Some []) (Some example_truncated_history_data) 0))
      1000 = 1800000000"
    by (simp add: example_page_def example_now)
  have parses: "getItem_parse example_toString [] = Inl RangeError"
    "readBigUInt64LE [] 16 = Inl RangeError"
    "checkPurchaseHistory_parse (PublicKey 5) example_truncated_history_data = Inl RangeError"
    "fetchItemDetails_parse example_toString [] = Inl RangeError"
    using h1 h2 h3 by (simp_all add: fetchItemDetails_parse_short)
  from parses c1 c2 c3 c4 show ?thesis
    by (simp add: now)
qed

section \<open>Encoding an item and decoding it again\<close>

lemma add_item_data_eq:
  assumes "id' < 2 ^ 64" and "price' < 2 ^ 64" and "length metadataUri' < 2 ^ 32"
  shows "add_item_data id' price' metadataUri' =
     Inr (Buffer_from_array add_item_discriminator @ le_bytes 8 id' @ le_bytes 8 price' @
          le_bytes 4 (length metadataUri') @ Buffer_from metadataUri')"
  using assms
  by (simp add: add_item_data_def writeBigUInt64LE_def writeUInt32LE_def Buffer_alloc_def
      Let_def)

lemma length_discriminator: "length (Buffer_from_array add_item_discriminator) = 8"
  by (simp add: Buffer_from_array_def add_item_discriminator_def)

lemma fetchItemDetails_parse_layout:
  assumes "length d = 8" and "length i = 8" and "length p = 8" and "length l = 4"
  shows "fetchItemDetails_parse toString (d @ i @ p @ l @ u) =
     Inr \<lparr>itemId = Number_of_bigint (le_nat i),
          price = js_div (Number_of_bigint (le_nat p)) 1000000000,
          metadataUri = toString (take (le_nat l) u)\<rparr>"
  by (simp add: fetchItemDetails_parse_long assms)

lemma getItem_parse_layout:
  assumes "length d = 8" and "length i = 8" and "length p = 8" and "length l = 4"
  shows "getItem_parse toString (d @ i @ p @ l @ u) =
     Inr \<lparr>item_id_number = Number_of_bigint (le_nat i),
          item_price_number = Number_of_bigint (le_nat p),
          item_metadataUri = toString (take (le_nat l) u)\<rparr>"
  by (simp add: getItem_parse_def readBigUInt64LE_def readUInt32LE_def slice_def assms)

lemma le_nat_le_bytes_8: "v < 2 ^ 64 \<Longrightarrow> le_nat (le_bytes 8 v) = v"
  by (simp add: le_nat_le_bytes)

lemma le_nat_le_bytes_4: "v < 2 ^ 32 \<Longrightarrow> le_nat (le_bytes 4 v) = v"
  by (simp add: le_nat_le_bytes)

text \<open>
  C3, as the claim states it, fails for the price: the item \<open>(1, 2000000000, '')\<close> is
  encoded, and the shop page decodes the price 2, the amount in SOL, not the
  2000000000 lamports that were encoded.
\<close>

theorem item_round_trip_counterexample:
  "add_item_data 1 2000000000 [] = Inr example_two_sol_bytes \<and>
   fetchItemDetails_parse example_toString example_two_sol_bytes =
     Inr \<lparr>itemId = 1, price = 2, metadataUri = []\<rparr> \<and>
   (2 :: rat) \<noteq> 2000000000"
  by (simp add: add_item_data_def add_item_discriminator_def example_two_sol_bytes_def
      buffer_defs fetchItemDetails_parse_long Number_of_bigint_def example_two_sol
      example_toString_def)

text \<open>
  C3, amended. Take an item whose id and price are numbers of JavaScript below
  \<open>2 ^ 64\<close> and whose metadata URI has fewer than \<open>2 ^ 32\<close> bytes and is returned
  unchanged by UTF-8 decoding. Its \<open>add_item\<close> layout decodes to the same id and the
  same URI. The shop client's \<open>getItem\<close> returns the price as it was encoded, in
  lamports; the shop page's \<open>fetchItemDetails\<close> returns the price divided by
  1000000000, in SOL.
\<close>

theorem item_round_trip:
  assumes "Number_of_bigint id' = id'" and "id' < 2 ^ 64"
    and "Number_of_bigint price' = price'" and "price' < 2 ^ 64"
    and "length metadataUri' < 2 ^ 32"
    and "toString (Buffer_from metadataUri') = metadataUri'"
  shows "\<exists>bytes. add_item_data id' price' metadataUri' = Inr bytes \<and>
      fetchItemDetails_parse toString bytes =
        Inr \<lparr>itemId = id', price = js_div price' 1000000000, metadataUri = metadataUri'\<rparr> \<and>
      getItem_parse toString bytes =
        Inr \<lparr>item_id_number = id', item_price_number = price',
             item_metadataUri = metadataUri'\<rparr>"
proof -
  let ?bytes = "Buffer_from_array add_item_discriminator @ le_bytes 8 id' @ le_bytes 8 price' @
          le_bytes 4 (length metadataUri') @ Buffer_from metadataUri'"
  have "add_item_data id' price' metadataUri' = Inr ?bytes"
    using assms(2,4,5) by (rule add_item_data_eq)
  moreover have "fetchItemDetails_parse toString ?bytes =
        Inr \<lparr>itemId = id', price = js_div price' 1000000000, metadataUri = metadataUri'\<rparr>"
    using assms
    by (simp add: fetchItemDetails_parse_layout length_discriminator le_nat_le_bytes_8
        le_nat_le_bytes_4)
  moreover have "getItem_parse toString ?bytes =
        Inr \<lparr>item_id_number = id', item_price_number = price',
             item_metadataUri = metadataUri'\<rparr>"
    using assms
    by (simp add: getItem_parse_layout length_discriminator le_nat_le_bytes_8
        le_nat_le_bytes_4)
  ultimately show ?thesis
    by blast
qed

theorem item_round_trip_witness:
  "Number_of_bigint 1 = 1 \<and> (1 :: nat) < 2 ^ 64 \<and>
   Number_of_bigint 1000000000 = 1000000000 \<and> (1000000000 :: nat) < 2 ^ 64 \<and>
   length ''image:https://x/y.png'' < 2 ^ 32 \<and>
   example_toString (Buffer_from ''image:https://x/y.png'') = ''image:https://x/y.png'' \<and>
   (\<exists>bytes. add_item_data 1 1000000000 ''image:https://x/y.png'' = Inr bytes \<and>
      fetchItemDetails_parse example_toString bytes =
        Inr \<lparr>itemId = 1, price = 1, metadataUri = ''image:https://x/y.png''\<rparr> \<and>
      getItem_parse example_toString bytes =
        Inr \<lparr>item_id_number = 1, item_price_number = 1000000000,
             item_metadataUri = ''image:https://x/y.png''\<rparr>)"
proof -
  have h1: "Number_of_bigint 1 = 1" and h2: "(1 :: nat) < 2 ^ 64"
    and h3: "Number_of_bigint 1000000000 = 1000000000" and h4: "(1000000000 :: nat) < 2 ^ 64"
    and h5: "length ''image:https://x/y.png'' < 2 ^ 32"
    by (simp_all add: Number_of_bigint_def)
  have h6: "example_toString (Buffer_from ''image:https://x/y.png'') = ''image:https://x/y.png''"
    by (rule example_toString_Buffer_from)
  note c = item_round_trip [where toString = example_toString, OF h1 h2 h3 h4 h5 h6]
  from h1 h2 h3 h4 h5 h6 c show ?thesis
    unfolding example_sol by blast
qed

section \<open>The network alert\<close>

lemma probe_eq:
  "probe genesisOf live entries =
     (case List.find (\<lambda>entry. genesisOf (endpoint (snd entry)) = Inr live) entries of
        None \<Rightarrow> (map (\<lambda>entry. endpoint (snd entry)) entries, None)
      | Some entry \<Rightarrow>
          (map (\<lambda>entry. endpoint (snd entry))
             (takeWhile (\<lambda>entry. genesisOf (endpoint (snd entry)) \<noteq> Inr live) entries)
           @ [endpoint (snd entry)],
           Some entry))"
proof (induction entries)
  case Nil
  then show ?case by simp
next
  case (Cons entry entries)
  obtain network' config where entry: "entry = (network', config)"
    by (cases entry)
  show ?case
  proof (cases "genesisOf (endpoint config) = Inr live")
    case True
    then show ?thesis
      by (simp add: entry)
  next
    case False
    then show ?thesis
      using Cons.IH
      by (cases "genesisOf (endpoint config)")
        (auto simp: entry split: option.splits)
  qed
qed

lemma CURRENT_NETWORK_eq:
  "CURRENT_NETWORK =
     Some \<lparr>name = ''Sonic Testnet'',
           endpoint = ''https://api.testnet.sonic.game'',
           explorerUrl = ''https://explorer.testnet.sonic.game''\<rparr>"
  by (simp add: CURRENT_NETWORK_def NETWORK_PROVIDER_def SONIC_NETWORKS_def SOLANA_NETWORK_def)

lemma catalog_names:
  "entry \<in> set (SONIC_NETWORKS @ SOLANA_NETWORKS_CONFIG) \<Longrightarrow>
     name (snd entry) \<noteq> ''Unknown Network''"
  by (auto simp: SONIC_NETWORKS_def SOLANA_NETWORKS_CONFIG_def)


lemma find_append_eq:
  "List.find P (xs @ ys) = (case List.find P xs of None \<Rightarrow> List.find P ys | Some x \<Rightarrow> Some x)"
  by (induction xs) auto

lemma takeWhile_found:
  "List.find P xs = Some x \<Longrightarrow>
     takeWhile (\<lambda>x. \<not> P x) (xs @ ys) = takeWhile (\<lambda>x. \<not> P x) xs"
  by (induction xs) (auto split: if_splits)

lemma takeWhile_not_found:
  "List.find P xs = None \<Longrightarrow>
     takeWhile (\<lambda>x. \<not> P x) (xs @ ys) = xs @ takeWhile (\<lambda>x. \<not> P x) ys"
  by (induction xs) (auto split: if_splits)

lemma find_in_set: "List.find P xs = Some x \<Longrightarrow> x \<in> set xs"
  by (induction xs) (auto split: if_splits)

lemma find_holds: "List.find P xs = Some x \<Longrightarrow> P x"
  by (induction xs) (auto split: if_splits)

lemma find_None_all: "List.find P xs = None \<Longrightarrow> \<forall>x \<in> set xs. \<not> P x"
  by (induction xs) (auto split: if_splits)

lemma checkNetwork_mismatch:
  assumes "getGenesisHash = Inr live"
    and "genesisOf ''https://api.testnet.sonic.game'' = Inr expected"
    and "live \<noteq> expected"
  shows "checkNetwork getGenesisHash genesisOf =
     (case List.find (\<lambda>entry. genesisOf (endpoint (snd entry)) = Inr live)
             (SONIC_NETWORKS @ SOLANA_NETWORKS_CONFIG) of
        Some entry \<Rightarrow>
          (''https://api.testnet.sonic.game'' #
             map (\<lambda>entry. endpoint (snd entry))
               (takeWhile (\<lambda>entry. genesisOf (endpoint (snd entry)) \<noteq> Inr live)
                  (SONIC_NETWORKS @ SOLANA_NETWORKS_CONFIG))
             @ [endpoint (snd entry)],
           Some (False,
             Some \<lparr>provider = (if entry \<in> set SONIC_NETWORKS then ''sonic'' else ''solana''),
                   network = fst entry, detected_name = name (snd entry)\<rparr>))
      | None \<Rightarrow>
          (''https://api.testnet.sonic.game'' #
             map (\<lambda>entry. endpoint (snd entry)) (SONIC_NETWORKS @ SOLANA_NETWORKS_CONFIG),
           Some (False,
             Some \<lparr>provider = ''unknown'', network = ''unknown'',
                   detected_name = ''Unknown Network''\<rparr>)))"
proof (cases "List.find (\<lambda>entry. genesisOf (endpoint (snd entry)) = Inr live) SONIC_NETWORKS")
  case (Some entry)
  then have "entry \<in> set SONIC_NETWORKS"
    by (rule find_in_set)
  with Some show ?thesis
    using assms
    by (cases entry)
      (simp add: checkNetwork_def CURRENT_NETWORK_eq probe_eq find_append_eq
        takeWhile_found [OF Some])
next
  case None
  note sonic = this
  show ?thesis
  proof (cases "List.find (\<lambda>entry. genesisOf (endpoint (snd entry)) = Inr live)
                  SOLANA_NETWORKS_CONFIG")
    case None
    with sonic show ?thesis
      using assms
      by (simp add: checkNetwork_def CURRENT_NETWORK_eq probe_eq find_append_eq)
  next
    case (Some entry)
    have "\<not> genesisOf (endpoint (snd entry)) \<noteq> Inr live"
      using find_holds [OF Some] by simp
    with sonic have "entry \<notin> set SONIC_NETWORKS"
      using find_None_all [OF sonic] by blast
    with sonic Some show ?thesis
      using assms
      by (cases entry)
        (simp add: checkNetwork_def CURRENT_NETWORK_eq probe_eq find_append_eq
          takeWhile_not_found [OF sonic])
  qed
qed


text \<open>
  C8. The live genesis hash differs from the hash of the configured network, the Sonic
  testnet. The alert then asks the endpoints of the catalog in order, the Sonic
  networks first and the Solana networks after them, skips an endpoint that does not
  answer, and stops at the first entry whose hash is the live one: it reports the key
  and the name of that entry. When no entry answers the live hash it has asked every
  endpoint and reports \<open>Unknown Network\<close>; and it reports \<open>Unknown Network\<close> in
  no other case.
\<close>

theorem network_detection:
  assumes "getGenesisHash = Inr live"
    and "genesisOf ''https://api.testnet.sonic.game'' = Inr expected"
    and "live \<noteq> expected"
  shows "(List.find (\<lambda>entry. genesisOf (endpoint (snd entry)) = Inr live)
            (SONIC_NETWORKS @ SOLANA_NETWORKS_CONFIG) = Some entry \<longrightarrow>
          (\<exists>detected. checkNetwork getGenesisHash genesisOf =
             (''https://api.testnet.sonic.game'' #
                map (\<lambda>entry. endpoint (snd entry))
                  (takeWhile (\<lambda>entry. genesisOf (endpoint (snd entry)) \<noteq> Inr live)
                     (SONIC_NETWORKS @ SOLANA_NETWORKS_CONFIG))
                @ [endpoint (snd entry)],
              Some (False, Some detected)) \<and>
             network detected = fst entry \<and>
             detected_name detected = name (snd entry))) \<and>
         (List.find (\<lambda>entry. genesisOf (endpoint (snd entry)) = Inr live)
            (SONIC_NETWORKS @ SOLANA_NETWORKS_CONFIG) = None \<longrightarrow>
          checkNetwork getGenesisHash genesisOf =
            (''https://api.testnet.sonic.game'' #
               map (\<lambda>entry. endpoint (snd entry)) (SONIC_NETWORKS @ SOLANA_NETWORKS_CONFIG),
             Some (False,
               Some \<lparr>provider = ''unknown'', network = ''unknown'',
                     detected_name = ''Unknown Network''\<rparr>))) \<and>
         ((\<exists>asked detected.
             checkNetwork getGenesisHash genesisOf = (asked, Some (False, Some detected)) \<and>
             detected_name detected = ''Unknown Network'') \<longrightarrow>
          (\<forall>entry \<in> set (SONIC_NETWORKS @ SOLANA_NETWORKS_CONFIG).
             genesisOf (endpoint (snd entry)) \<noteq> Inr live))"
proof (intro conjI impI)
  assume "List.find (\<lambda>entry. genesisOf (endpoint (snd entry)) = Inr live)
            (SONIC_NETWORKS @ SOLANA_NETWORKS_CONFIG) = Some entry"
  then show "\<exists>detected. checkNetwork getGenesisHash genesisOf =
             (''https://api.testnet.sonic.game'' #
                map (\<lambda>entry. endpoint (snd entry))
                  (takeWhile (\<lambda>entry. genesisOf (endpoint (snd entry)) \<noteq> Inr live)
                     (SONIC_NETWORKS @ SOLANA_NETWORKS_CONFIG))
                @ [endpoint (snd entry)],
              Some (False, Some detected)) \<and>
             network detected = fst entry \<and>
             detected_name detected = name (snd entry)"
    by (simp add: checkNetwork_mismatch [where genesisOf = genesisOf, OF assms])
next
  assume "List.find (\<lambda>entry. genesisOf (endpoint (snd entry)) = Inr live)
            (SONIC_NETWORKS @ SOLANA_NETWORKS_CONFIG) = None"
  then show "checkNetwork getGenesisHash genesisOf =
            (''https://api.testnet.sonic.game'' #
               map (\<lambda>entry. endpoint (snd entry)) (SONIC_NETWORKS @ SOLANA_NETWORKS_CONFIG),
             Some (False,
               Some \<lparr>provider = ''unknown'', network = ''unknown'',
                     detected_name = ''Unknown Network''\<rparr>))"
    by (simp add: checkNetwork_mismatch [where genesisOf = genesisOf, OF assms])
next
  assume unknown: "\<exists>asked detected.
             checkNetwork getGenesisHash genesisOf = (asked, Some (False, Some detected)) \<and>
             detected_name detected = ''Unknown Network''"
  have "List.find (\<lambda>entry. genesisOf (endpoint (snd entry)) = Inr live)
          (SONIC_NETWORKS @ SOLANA_NETWORKS_CONFIG) = None"
  proof (cases "List.find (\<lambda>entry. genesisOf (endpoint (snd entry)) = Inr live)
          (SONIC_NETWORKS @ SOLANA_NETWORKS_CONFIG)")
    case None
    then show ?thesis .
  next
    case (Some entry)
    then have "entry \<in> set (SONIC_NETWORKS @ SOLANA_NETWORKS_CONFIG)"
      by (rule find_in_set)
    then have "name (snd entry) \<noteq> ''Unknown Network''"
      by (rule catalog_names)
    with unknown Some show ?thesis
      by (auto simp: checkNetwork_mismatch [where genesisOf = genesisOf, OF assms])
  qed
  then show "\<forall>entry \<in> set (SONIC_NETWORKS @ SOLANA_NETWORKS_CONFIG).
             genesisOf (endpoint (snd entry)) \<noteq> Inr live"
    by (rule find_None_all)
qed

lemma example_find_devnet:
  "List.find (\<lambda>entry. example_genesisOf (endpoint (snd entry)) = Inr ''D'')
     (SONIC_NETWORKS @ SOLANA_NETWORKS_CONFIG) =
   Some (''devnet'',
     \<lparr>name = ''Solana Devnet'', endpoint = ''https://api.devnet.solana.com'',
      explorerUrl = ''https://explorer.solana.com/?cluster=devnet''\<rparr>)"
  by (simp add: SONIC_NETWORKS_def SOLANA_NETWORKS_CONFIG_def example_genesisOf_def)

lemma example_find_none:
  "List.find (\<lambda>entry. example_genesisOf (endpoint (snd entry)) = Inr ''X'')
     (SONIC_NETWORKS @ SOLANA_NETWORKS_CONFIG) = None"
  by (simp add: SONIC_NETWORKS_def SOLANA_NETWORKS_CONFIG_def example_genesisOf_def)

theorem network_detection_witness:
  "example_genesisOf ''https://api.testnet.sonic.game'' = Inr ''T'' \<and> ''D'' \<noteq> ''T'' \<and>
   ''X'' \<noteq> ''T'' \<and>
   (\<exists>asked detected. checkNetwork (Inr ''D'') example_genesisOf
        = (asked, Some (False, Some detected)) \<and>
      network detected = ''devnet'' \<and> detected_name detected = ''Solana Devnet'') \<and>
   (\<exists>asked. checkNetwork (Inr ''X'') example_genesisOf =
      (asked,
       Some (False,
         Some \<lparr>provider = ''unknown'', network = ''unknown'',
               detected_name = ''Unknown Network''\<rparr>))) \<and>
   list_all (\<lambda>entry. example_genesisOf (endpoint (snd entry)) \<noteq> Inr ''X'')
     (SONIC_NETWORKS @ SOLANA_NETWORKS_CONFIG)"
proof -
  have h1: "example_genesisOf ''https://api.testnet.sonic.game'' = Inr ''T''"
    by (simp add: example_genesisOf_def)
  have h2: "''D'' \<noteq> ''T''" and h3: "''X'' \<noteq> ''T''"
    by simp_all
  note d = network_detection [where genesisOf = example_genesisOf, OF refl h1 h2]
  note x = network_detection [where genesisOf = example_genesisOf, OF refl h1 h3]
  note c1 = d [THEN conjunct1, THEN mp, OF example_find_devnet]
  note c2 = x [THEN conjunct2, THEN conjunct1, THEN mp, OF example_find_none]
  from c2 have unknown: "\<exists>asked detected.
      checkNetwork (Inr ''X'') example_genesisOf = (asked, Some (False, Some detected)) \<and>
      detected_name detected = ''Unknown Network''"
    by simp
  note c3 = x [THEN conjunct2, THEN conjunct2, THEN mp, OF unknown]
  from c1 have c1': "\<exists>asked detected. checkNetwork (Inr ''D'') example_genesisOf
        = (asked, Some (False, Some detected)) \<and>
      network detected = ''devnet'' \<and> detected_name detected = ''Solana Devnet''"
    by auto
  from c2 have c2': "\<exists>asked. checkNetwork (Inr ''X'') example_genesisOf =
      (asked,
       Some (False,
         Some \<lparr>provider = ''unknown'', network = ''unknown'',
               detected_name = ''Unknown Network''\<rparr>))"
    by blast
  from c3 have c3': "list_all (\<lambda>entry. example_genesisOf (endpoint (snd entry)) \<noteq> Inr ''X'')
      (SONIC_NETWORKS @ SOLANA_NETWORKS_CONFIG)"
    unfolding list_all_iff .
  from h1 h2 h3 c1' c2' c3' show ?thesis
    by blast
qed

section \<open>Derived addresses\<close>

lemma getShopPDA_iff:
  "getShopPDA derive pid = Inr a \<longleftrightarrow> (\<exists>bump. derive [Buffer_from ''shop''] pid = Inr (a, bump))"
  by (auto simp: getShopPDA_def split: sum.splits)

lemma getItemPDA_iff:
  "getItemPDA derive pid id' = Inr a \<longleftrightarrow>
     id' < 2 ^ 64 \<and> (\<exists>bump. derive [Buffer_from ''item'', le_bytes 8 id'] pid = Inr (a, bump))"
  by (auto simp: getItemPDA_def writeBigUInt64LE_def Buffer_alloc_def split: sum.splits)

lemma getHistoryPDA_iff:
  "getHistoryPDA derive pid buyer = Inr a \<longleftrightarrow>
     (\<exists>bump. derive [Buffer_from ''history'', toBuffer buyer] pid = Inr (a, bump))"
  by (auto simp: getHistoryPDA_def split: sum.splits)

lemma handlePurchase_transaction_keys:
  obtains main where
    "instructions
       ((handlePurchase_transaction walletKey pid shopPDA itemPDA historyPDA admin e)
          \<lparr>recentBlockhash := b, feePayer := f\<rparr>)
       = [SetComputeUnitLimit 1000000, ProgramInstruction main]"
    "map pubkey (keys main) =
       [walletKey, shopPDA, itemPDA, admin, historyPDA, SystemProgram_programId]"
  by (simp add: handlePurchase_transaction_def new_Transaction_def add_def)

text \<open>
  C9. The addresses are derived by \<open>findProgramAddressSync\<close> of the library, a function
  of the seeds and the program id. The helpers of the repository give it the seeds
  \<open>["shop"]\<close>, \<open>["item", id on 8 bytes, little-endian]\<close> and
  \<open>["history", the 32 bytes of the buyer's key]\<close>, and nothing else: an address is the
  one the library derives from these seeds, and an item address exists only for an id
  below \<open>2 ^ 64\<close>, which the 8 bytes determine. So two purchases on pages with the
  same program and the same buyer name the same shop, item and history address,
  whatever the node answers, whatever the wallet signs and whatever the time is.
\<close>

theorem derived_addresses:
  "(getShopPDA derive pid = Inr shopPDA \<longleftrightarrow>
      (\<exists>bump. derive [Buffer_from ''shop''] pid = Inr (shopPDA, bump))) \<and>
   (getItemPDA derive pid id' = Inr itemPDA \<longleftrightarrow>
      id' < 2 ^ 64 \<and> le_nat (le_bytes 8 id') = id' \<and>
      (\<exists>bump. derive [Buffer_from ''item'', le_bytes 8 id'] pid = Inr (itemPDA, bump))) \<and>
   (getHistoryPDA derive pid buyer = Inr historyPDA \<longleftrightarrow>
      (\<exists>bump. derive [Buffer_from ''history'', toBuffer buyer] pid = Inr (historyPDA, bump))) \<and>
   (findProgramAddressSync page1 = findProgramAddressSync page2 \<and>
    programPubkey page1 = programPubkey page2 \<and>
    publicKey (wallet page1) = publicKey (wallet page2) \<and>
    SignTransaction tx1 \<in> set (fst (handlePurchase page1 itemId')) \<and>
    SignTransaction tx2 \<in> set (fst (handlePurchase page2 itemId')) \<longrightarrow>
      (\<exists>main1 main2 buyer' shop item history admin1 admin2.
         instructions tx1 = [SetComputeUnitLimit 1000000, ProgramInstruction main1] \<and>
         instructions tx2 = [SetComputeUnitLimit 1000000, ProgramInstruction main2] \<and>
         map pubkey (keys main1) =
           [buyer', shop, item, admin1, history, SystemProgram_programId] \<and>
         map pubkey (keys main2) =
           [buyer', shop, item, admin2, history, SystemProgram_programId]))"
proof (intro conjI impI)
  show "getShopPDA derive pid = Inr shopPDA \<longleftrightarrow>
      (\<exists>bump. derive [Buffer_from ''shop''] pid = Inr (shopPDA, bump))"
    by (rule getShopPDA_iff)
  show "getItemPDA derive pid id' = Inr itemPDA \<longleftrightarrow>
      id' < 2 ^ 64 \<and> le_nat (le_bytes 8 id') = id' \<and>
      (\<exists>bump. derive [Buffer_from ''item'', le_bytes 8 id'] pid = Inr (itemPDA, bump))"
    using le_nat_le_bytes_8 [of id'] by (auto simp: getItemPDA_iff)
  show "getHistoryPDA derive pid buyer = Inr historyPDA \<longleftrightarrow>
      (\<exists>bump. derive [Buffer_from ''history'', toBuffer buyer] pid = Inr (historyPDA, bump))"
    by (rule getHistoryPDA_iff)
next
  assume a: "findProgramAddressSync page1 = findProgramAddressSync page2 \<and>
    programPubkey page1 = programPubkey page2 \<and>
    publicKey (wallet page1) = publicKey (wallet page2) \<and>
    SignTransaction tx1 \<in> set (fst (handlePurchase page1 itemId')) \<and>
    SignTransaction tx2 \<in> set (fst (handlePurchase page2 itemId'))"
  then obtain walletKey where w1: "publicKey (wallet page1) = Some walletKey"
    and s1: "SignTransaction tx1 \<in> set (fst (handlePurchase_try page1 walletKey itemId'))"
    using handlePurchase_SignE [of tx1 page1 itemId'] by blast
  from a obtain walletKey' where w2: "publicKey (wallet page2) = Some walletKey'"
    and s2': "SignTransaction tx2 \<in> set (fst (handlePurchase_try page2 walletKey' itemId'))"
    using handlePurchase_SignE [of tx2 page2 itemId'] by blast
  from a w1 w2 have "walletKey' = walletKey"
    by simp
  with s2' have s2: "SignTransaction tx2 \<in> set (fst (handlePurchase_try page2 walletKey itemId'))"
    by simp
  from s1 obtain pid shopPDA itemPDA historyPDA shopData admin itemData p b acc blockhash
    where run1: "programPubkey page1 = Inr pid"
      "getShopPDA (findProgramAddressSync page1) pid = Inr shopPDA"
      "getItemPDA (findProgramAddressSync page1) pid itemId' = Inr itemPDA"
      "getHistoryPDA (findProgramAddressSync page1) pid walletKey = Inr historyPDA"
      "getAccountInfo (connection page1) shopPDA = Inr (Some shopData)"
      "new_PublicKey (slice shopData 8 40) = Inr admin"
      "getAccountInfo (connection page1) itemPDA = Inr (Some itemData)"
      "readBigUInt64LE itemData 16 = Inr p"
      "getBalance (connection page1) walletKey = Inr b"
      "\<not> b < Number_of_bigint p"
      "getAccountInfo (connection page1) historyPDA = Inr acc"
      "getLatestBlockhash (connection page1) = Inr blockhash"
    and tx1: "tx1 = (handlePurchase_transaction walletKey pid shopPDA itemPDA historyPDA admin
                    (acc \<noteq> None))\<lparr>recentBlockhash := Some blockhash,
                                    feePayer := Some walletKey\<rparr>"
    by (rule handlePurchase_try_SignE)
  from s2 obtain pid' shopPDA' itemPDA' historyPDA' shopData' admin' itemData' p' b' acc'
      blockhash'
    where run2: "programPubkey page2 = Inr pid'"
      "getShopPDA (findProgramAddressSync page2) pid' = Inr shopPDA'"
      "getItemPDA (findProgramAddressSync page2) pid' itemId' = Inr itemPDA'"
      "getHistoryPDA (findProgramAddressSync page2) pid' walletKey = Inr historyPDA'"
      "getAccountInfo (connection page2) shopPDA' = Inr (Some shopData')"
      "new_PublicKey (slice shopData' 8 40) = Inr admin'"
      "getAccountInfo (connection page2) itemPDA' = Inr (Some itemData')"
      "readBigUInt64LE itemData' 16 = Inr p'"
      "getBalance (connection page2) walletKey = Inr b'"
      "\<not> b' < Number_of_bigint p'"
      "getAccountInfo (connection page2) historyPDA' = Inr acc'"
      "getLatestBlockhash (connection page2) = Inr blockhash'"
    and tx2: "tx2 = (handlePurchase_transaction walletKey pid' shopPDA' itemPDA' historyPDA'
                    admin' (acc' \<noteq> None))\<lparr>recentBlockhash := Some blockhash',
                                    feePayer := Some walletKey\<rparr>"
    by (rule handlePurchase_try_SignE)
  from a run1(1) run2(1) have pid: "pid' = pid"
    by simp
  from a run1(2-4) run2(2-4) have same: "shopPDA' = shopPDA" "itemPDA' = itemPDA"
      "historyPDA' = historyPDA"
    unfolding pid by simp_all
  obtain main1 where m1: "instructions tx1 = [SetComputeUnitLimit 1000000, ProgramInstruction main1]"
      "map pubkey (keys main1) =
         [walletKey, shopPDA, itemPDA, admin, historyPDA, SystemProgram_programId]"
    unfolding tx1 by (rule handlePurchase_transaction_keys)
  obtain main2 where m2: "instructions tx2 = [SetComputeUnitLimit 1000000, ProgramInstruction main2]"
      "map pubkey (keys main2) =
         [walletKey, shopPDA, itemPDA, admin', historyPDA, SystemProgram_programId]"
    unfolding tx2 pid same by (rule handlePurchase_transaction_keys)
  from m1 m2 show "\<exists>main1 main2 buyer' shop item history admin1 admin2.
         instructions tx1 = [SetComputeUnitLimit 1000000, ProgramInstruction main1] \<and>
         instructions tx2 = [SetComputeUnitLimit 1000000, ProgramInstruction main2] \<and>
         map pubkey (keys main1) =
           [buyer', shop, item, admin1, history, SystemProgram_programId] \<and>
         map pubkey (keys main2) =
           [buyer', shop, item, admin2, history, SystemProgram_programId]"
    by (intro exI conjI)
qed


theorem derived_addresses_witness:
  "findProgramAddressSync (example_page (Some example_item_data) None 2000000000) =
     findProgramAddressSync
       (example_page (Some example_item_data) (Some example_history_data) 2000000000) \<and>
   SignTransaction (example_transaction False)
     \<in> set (fst (handlePurchase (example_page (Some example_item_data) None 2000000000) 1)) \<and>
   SignTransaction (example_transaction True)
     \<in> set (fst (handlePurchase
          (example_page (Some example_item_data) (Some example_history_data) 2000000000) 1)) \<and>
   getShopPDA example_derive (PublicKey 9) = Inr (PublicKey 4) \<and>
   getItemPDA example_derive (PublicKey 9) 1 = Inr (PublicKey 12) \<and>
   getHistoryPDA example_derive (PublicKey 9) (PublicKey 5) = Inr (PublicKey 39) \<and>
   (\<exists>main1 main2 buyer' shop item history admin1 admin2.
      instructions (example_transaction False)
        = [SetComputeUnitLimit 1000000, ProgramInstruction main1] \<and>
      instructions (example_transaction True)
        = [SetComputeUnitLimit 1000000, ProgramInstruction main2] \<and>
      map pubkey (keys main1) = [buyer', shop, item, admin1, history, SystemProgram_programId] \<and>
      map pubkey (keys main2) = [buyer', shop, item, admin2, history, SystemProgram_programId])"
proof -
  have h: "findProgramAddressSync (example_page (Some example_item_data) None 2000000000) =
      findProgramAddressSync
        (example_page (Some example_item_data) (Some example_history_data) 2000000000) \<and>
    programPubkey (example_page (Some example_item_data) None 2000000000) =
      programPubkey
        (example_page (Some example_item_data) (Some example_history_data) 2000000000) \<and>
    publicKey (wallet (example_page (Some example_item_data) None 2000000000)) =
      publicKey (wallet
        (example_page (Some example_item_data) (Some example_history_data) 2000000000)) \<and>
    SignTransaction (example_transaction False)
      \<in> set (fst (handlePurchase (example_page (Some example_item_data) None 2000000000) 1)) \<and>
    SignTransaction (example_transaction True)
      \<in> set (fst (handlePurchase
           (example_page (Some example_item_data) (Some example_history_data) 2000000000) 1))"
    unfolding example_handlePurchase by (simp add: example_page_fields)
  note d = derived_addresses [where derive = example_derive and pid = "PublicKey 9"
      and id' = 1 and buyer = "PublicKey 5"]
  have shop: "\<exists>bump. example_derive [Buffer_from ''shop''] (PublicKey 9)
      = Inr (PublicKey 4, bump)"
    by (simp add: example_derive_def)
  have item: "(1 :: nat) < 2 ^ 64 \<and> le_nat (le_bytes 8 1) = 1 \<and>
      (\<exists>bump. example_derive [Buffer_from ''item'', le_bytes 8 1] (PublicKey 9)
         = Inr (PublicKey 12, bump))"
    by (simp add: example_derive_def le_nat_le_bytes_8)
  have history: "\<exists>bump. example_derive [Buffer_from ''history'', toBuffer (PublicKey 5)]
      (PublicKey 9) = Inr (PublicKey 39, bump)"
    by (simp add: example_derive_def toBuffer_def be_bytes_def)
  note c1 = d [where shopPDA = "PublicKey 4", THEN conjunct1, THEN iffD2, OF shop]
  note c2 = d [where itemPDA = "PublicKey 12", THEN conjunct2, THEN conjunct1, THEN iffD2,
      OF item]
  note c3 = d [where historyPDA = "PublicKey 39", THEN conjunct2, THEN conjunct2,
      THEN conjunct1, THEN iffD2, OF history]
  note c4 = derived_addresses [THEN conjunct2, THEN conjunct2, THEN conjunct2, THEN mp, OF h]
  from h c1 c2 c3 c4 show ?thesis
    by (intro conjI) simp_all
qed

end
